theory Spec2Isabelle
  imports Complex_Main
begin

text \<open>
  A shallow embedding of the transfer core of the multi-cloud integrator: the URL
  resolver, the connectors' result handling, the retry wrappers, the circuit breaker,
  the transfer orchestrator and the batch runner.  A Python function that can raise
  returns a sum, \<open>Inl\<close> the exception; a function with effects takes the state it
  acts on and returns the new one; \<^verbatim>\<open>time.time()\<close> is a real number read off that
  state.  Calls into the logger are left out where they neither change a result nor
  the flow of control, which is everywhere but in the \<^verbatim>\<open>before_sleep\<close> callback
  of \<^verbatim>\<open>with_retry\<close>.
\<close>

section \<open>Exceptions\<close>

text \<open>
  The Python sources raise and catch exceptions by class.  An exception class of the
  program, of the standard library or of a backend SDK is a constructor of
  \<open>exn_class\<close>; \<open>bases\<close> lists a class together with its superclasses, so that
  \<open>isinstance\<close> decides what an \<^verbatim>\<open>except C\<close> clause catches.

  Two different classes are called \<^verbatim>\<open>ConnectionError\<close> in the repository:
  \<^verbatim>\<open>src/utils.py\<close> uses the builtin one (it imports no other), while
  \<^verbatim>\<open>src/connectors/base.py\<close> defines its own subclass of \<^verbatim>\<open>CloudStorageError\<close>,
  which the connector modules import.  The same holds for \<^verbatim>\<open>FileNotFoundError\<close>
  and \<^verbatim>\<open>PermissionError\<close>.  The prefixes keep them apart.
\<close>

datatype exn_class =
    builtins_Exception
  | builtins_ValueError
  | builtins_TypeError
  | builtins_KeyError
  | builtins_OverflowError
  | builtins_OSError
  | builtins_ConnectionError
  | builtins_ConnectionResetError
  | builtins_TimeoutError
  | builtins_PermissionError
  | base_CloudStorageError
  | base_AuthenticationError
  | base_ConnectionError
  | base_FileNotFoundError
  | base_PermissionError
  | botocore_BotoCoreError
  | botocore_ClientError
  | azure_AzureError
  | azure_HttpResponseError
  | azure_ResourceNotFoundError
  | google_GoogleCloudError
  | google_NotFound
  | google_Forbidden
  | tenacity_RetryError

fun bases :: "exn_class \<Rightarrow> exn_class list" where
  "bases builtins_Exception = [builtins_Exception]"
| "bases builtins_ValueError = [builtins_ValueError, builtins_Exception]"
| "bases builtins_TypeError = [builtins_TypeError, builtins_Exception]"
| "bases builtins_KeyError = [builtins_KeyError, builtins_Exception]"
| "bases builtins_OverflowError = [builtins_OverflowError, builtins_Exception]"
| "bases builtins_OSError = [builtins_OSError, builtins_Exception]"
| "bases builtins_ConnectionError =
     [builtins_ConnectionError, builtins_OSError, builtins_Exception]"
| "bases builtins_ConnectionResetError =
     [builtins_ConnectionResetError, builtins_ConnectionError, builtins_OSError,
      builtins_Exception]"
| "bases builtins_TimeoutError =
     [builtins_TimeoutError, builtins_OSError, builtins_Exception]"
| "bases builtins_PermissionError =
     [builtins_PermissionError, builtins_OSError, builtins_Exception]"
| "bases base_CloudStorageError = [base_CloudStorageError, builtins_Exception]"
| "bases base_AuthenticationError =
     [base_AuthenticationError, base_CloudStorageError, builtins_Exception]"
| "bases base_ConnectionError =
     [base_ConnectionError, base_CloudStorageError, builtins_Exception]"
| "bases base_FileNotFoundError =
     [base_FileNotFoundError, base_CloudStorageError, builtins_Exception]"
| "bases base_PermissionError =
     [base_PermissionError, base_CloudStorageError, builtins_Exception]"
| "bases botocore_BotoCoreError = [botocore_BotoCoreError, builtins_Exception]"
| "bases botocore_ClientError = [botocore_ClientError, builtins_Exception]"
| "bases azure_AzureError = [azure_AzureError, builtins_Exception]"
| "bases azure_HttpResponseError =
     [azure_HttpResponseError, azure_AzureError, builtins_Exception]"
| "bases azure_ResourceNotFoundError =
     [azure_ResourceNotFoundError, azure_HttpResponseError, azure_AzureError,
      builtins_Exception]"
| "bases google_GoogleCloudError = [google_GoogleCloudError, builtins_Exception]"
| "bases google_NotFound =
     [google_NotFound, google_GoogleCloudError, builtins_Exception]"
| "bases google_Forbidden =
     [google_Forbidden, google_GoogleCloudError, builtins_Exception]"
| "bases tenacity_RetryError = [tenacity_RetryError, builtins_Exception]"

text \<open>
  A raised exception: its class and the text \<^verbatim>\<open>str(e)\<close>.  A botocore
  \<^verbatim>\<open>ClientError\<close> also carries \<^verbatim>\<open>e.response['Error']['Code']\<close>, which the S3
  connector inspects.  A tenacity \<^verbatim>\<open>RetryError\<close> wraps the exception of the last
  attempt; its text is cut down to the class name.
\<close>

datatype exn =
    Exn exn_class string
  | ClientError string string
  | RetryError exn

fun class_of :: "exn \<Rightarrow> exn_class" where
  "class_of (Exn c m) = c"
| "class_of (ClientError code m) = botocore_ClientError"
| "class_of (RetryError e) = tenacity_RetryError"

fun str :: "exn \<Rightarrow> string" where
  "str (Exn c m) = m"
| "str (ClientError code m) = m"
| "str (RetryError e) = ''RetryError''"

definition isinstance :: "exn \<Rightarrow> exn_class list \<Rightarrow> bool" where
  "isinstance e cs = (\<exists>c \<in> set cs. c \<in> set (bases (class_of e)))"

section \<open>Circuit breaker (\<^verbatim>\<open>src/utils.py\<close>, class \<^verbatim>\<open>CircuitBreaker\<close>)\<close>

datatype cb_state = CLOSED | OPEN | HALF_OPEN

record circuit_breaker =
  failure_threshold :: int
  timeout :: int
  failure_count :: int
  last_failure_time :: "real option"
  state :: cb_state

text \<open>\<^verbatim>\<open>CircuitBreaker.__init__\<close>.\<close>

definition CircuitBreaker :: "int \<Rightarrow> int \<Rightarrow> circuit_breaker" where
  "CircuitBreaker threshold tmo =
     \<lparr>failure_threshold = threshold, timeout = tmo, failure_count = 0,
      last_failure_time = None, state = CLOSED\<rparr>"

text \<open>
  \<^verbatim>\<open>CircuitBreaker.call\<close>, in three pieces that follow the method's text.  The
  wrapped callable is a state transformer on a world \<open>'w\<close> that returns a value or
  raises; \<open>clock\<close> reads \<^verbatim>\<open>time.time()\<close> off the world.

  \<open>admit\<close> is the \<^verbatim>\<open>if self.state == "OPEN"\<close> block before the \<^verbatim>\<open>try\<close>: it
  either raises or hands on the breaker, possibly switched to \<open>HALF_OPEN\<close>.
  Subtracting \<^verbatim>\<open>None\<close> from a float raises \<^verbatim>\<open>TypeError\<close>.
\<close>

definition admit :: "real \<Rightarrow> circuit_breaker \<Rightarrow> exn + circuit_breaker" where
  "admit now cb =
     (if state cb = OPEN then
        (case last_failure_time cb of
           None \<Rightarrow> Inl (Exn builtins_TypeError ''unsupported operand type(s) for -'')
         | Some t \<Rightarrow>
             if now - t > real_of_int (timeout cb) then Inr (cb\<lparr>state := HALF_OPEN\<rparr>)
             else Inl (Exn builtins_ConnectionError ''Circuit breaker is OPEN''))
      else Inr cb)"

text \<open>The body of the \<^verbatim>\<open>try\<close> after the callable has returned.\<close>

definition on_success :: "circuit_breaker \<Rightarrow> circuit_breaker" where
  "on_success cb =
     (if state cb = HALF_OPEN then cb\<lparr>state := CLOSED, failure_count := 0\<rparr> else cb)"

text \<open>The \<^verbatim>\<open>except Exception\<close> handler; \<open>now\<close> is the clock read in the handler.\<close>

definition on_failure :: "real \<Rightarrow> circuit_breaker \<Rightarrow> circuit_breaker" where
  "on_failure now cb =
     (let cb1 = cb\<lparr>failure_count := failure_count cb + 1, last_failure_time := Some now\<rparr>
      in if failure_count cb1 \<ge> failure_threshold cb1 then cb1\<lparr>state := OPEN\<rparr> else cb1)"

definition call ::
  "('w \<Rightarrow> real) \<Rightarrow> circuit_breaker \<Rightarrow> ('w \<Rightarrow> (exn + 'a) \<times> 'w) \<Rightarrow> 'w
     \<Rightarrow> (exn + 'a) \<times> circuit_breaker \<times> 'w" where
  "call clock cb func w =
     (case admit (clock w) cb of
        Inl e \<Rightarrow> (Inl e, cb, w)
      | Inr cb1 \<Rightarrow>
          (case func w of
             (Inr result, w') \<Rightarrow> (Inr result, on_success cb1, w')
           | (Inl e, w') \<Rightarrow> (Inl e, on_failure (clock w') cb1, w')))"

text \<open>
  A breaker that has left \<open>CLOSED\<close> has counted at least \<open>failure_threshold\<close>
  failures and has a failure time, and it never rests in \<open>HALF_OPEN\<close> between two
  calls.  This holds of a fresh breaker and is kept by every call.
\<close>

definition cb_inv :: "circuit_breaker \<Rightarrow> bool" where
  "cb_inv cb =
     (state cb \<noteq> HALF_OPEN \<and>
      (state cb = OPEN \<longrightarrow>
         failure_threshold cb \<le> failure_count cb \<and> last_failure_time cb \<noteq> None))"

text \<open>
  Whether the timeout has elapsed since the last failure, as \<open>admit\<close> tests it.
\<close>

definition timeout_elapsed :: "real \<Rightarrow> circuit_breaker \<Rightarrow> bool" where
  "timeout_elapsed t cb =
     (case last_failure_time cb of
        None \<Rightarrow> False
      | Some t0 \<Rightarrow> t - t0 > real_of_int (timeout cb))"

text \<open>A sequence of calls through one breaker, each with its own callable.\<close>

fun call_seq ::
  "('w \<Rightarrow> real) \<Rightarrow> circuit_breaker \<Rightarrow> ('w \<Rightarrow> (exn + 'a) \<times> 'w) list \<Rightarrow> 'w
     \<Rightarrow> (exn + 'a) list \<times> circuit_breaker \<times> 'w" where
  "call_seq clock cb [] w = ([], cb, w)"
| "call_seq clock cb (f # fs) w =
     (case call clock cb f w of
        (r, cb1, w1) \<Rightarrow>
          (case call_seq clock cb1 fs w1 of (rs, cb2, w2) \<Rightarrow> (r # rs, cb2, w2)))"

definition failures :: "(exn + 'a) list \<Rightarrow> nat" where
  "failures rs = length (filter isl rs)"

section \<open>Retry (\<^verbatim>\<open>src/utils.py\<close>)\<close>

text \<open>The two fields of \<^verbatim>\<open>config\<close> (\<^verbatim>\<open>src/config.py\<close>) that the retry code reads.\<close>

record config =
  max_retries :: int
  retry_delay :: int

text \<open>
  \<^verbatim>\<open>RETRIABLE_EXCEPTIONS\<close>: the builtin \<^verbatim>\<open>ConnectionError\<close> and
  \<^verbatim>\<open>TimeoutError\<close>.
\<close>

definition RETRIABLE_EXCEPTIONS :: "exn_class list" where
  "RETRIABLE_EXCEPTIONS = [builtins_ConnectionError, builtins_TimeoutError]"

text \<open>
  Python's \<^verbatim>\<open>x or y\<close> on an optional number: \<^verbatim>\<open>None\<close> and zero are falsy.
\<close>

definition or_default :: "'n::zero option \<Rightarrow> 'n \<Rightarrow> 'n" where
  "or_default x y = (case x of None \<Rightarrow> y | Some v \<Rightarrow> if v = 0 then y else v)"

text \<open>
  The delay of both retry functions is a Python number: the \<^verbatim>\<open>delay\<close> argument
  is annotated \<^verbatim>\<open>float\<close>, and \<^verbatim>\<open>config.retry_delay\<close>, which replaces an absent
  or zero argument, is an \<^verbatim>\<open>int\<close>.  The two kinds multiply differently with
  \<^verbatim>\<open>2 ** k\<close>, so the model keeps them apart; a float is a real number here
  (finite, and taken as exact).
\<close>

datatype py_number = PyInt int | PyFloat real

fun num_val :: "py_number \<Rightarrow> real" where
  "num_val (PyInt i) = real_of_int i"
| "num_val (PyFloat x) = x"

text \<open>\<^verbatim>\<open>delay or config.retry_delay\<close>.\<close>

definition or_number :: "py_number option \<Rightarrow> py_number \<Rightarrow> py_number" where
  "or_number x y = (case x of None \<Rightarrow> y | Some v \<Rightarrow> if num_val v = 0 then y else v)"

text \<open>
  \<^verbatim>\<open>delay * (2 ** k)\<close> for \<open>k \<ge> 0\<close>.  The power is an \<^verbatim>\<open>int\<close> of unbounded
  size.  With an \<^verbatim>\<open>int\<close> delay the product is exact.  With a \<^verbatim>\<open>float\<close> delay
  Python converts the power to a float first, which raises \<^verbatim>\<open>OverflowError\<close>
  from \<^verbatim>\<open>2 ** 1024\<close> on; below that the scaling by a power of two is exact (a
  product beyond the float range is an infinity of the same sign, which the later
  \<^verbatim>\<open>min\<close> with 60 and the sign test treat like the real product).
\<close>

definition times_pow2 :: "py_number \<Rightarrow> nat \<Rightarrow> exn + real" where
  "times_pow2 x k =
     (case x of
        PyInt i \<Rightarrow> Inr (real_of_int (i * 2 ^ k))
      | PyFloat r \<Rightarrow>
          if 1024 \<le> k then
            Inl (Exn builtins_OverflowError ''int too large to convert to float'')
          else Inr (r * 2 ^ k))"

text \<open>
  \<^verbatim>\<open>retry_operation\<close>.  The operation is a state transformer that returns or
  raises.  The result is what \<^verbatim>\<open>retry_operation\<close> returns or raises, the state
  the operation has left, and the list of the arguments of \<^verbatim>\<open>time.sleep\<close>.
  The loop runs over \<^verbatim>\<open>range(1, max_attempts + 1)\<close>; \<open>last_exception\<close> is the
  variable of that name.  An exception raised inside the \<^verbatim>\<open>except\<close> block leaves
  the function: the \<^verbatim>\<open>OverflowError\<close> of the product, and the \<^verbatim>\<open>ValueError\<close>
  that \<^verbatim>\<open>time.sleep\<close> raises on a negative argument.  \<^verbatim>\<open>raise None\<close> raises
  \<^verbatim>\<open>TypeError\<close>.
\<close>

fun retry_loop ::
  "('s \<Rightarrow> (exn + 'a) \<times> 's) \<Rightarrow> int \<Rightarrow> py_number \<Rightarrow> int list \<Rightarrow> exn option \<Rightarrow> 's
     \<Rightarrow> real list \<Rightarrow> (exn + 'a) \<times> 's \<times> real list" where
  "retry_loop operation max_attempts delay [] last_exception s slept =
     (case last_exception of
        None \<Rightarrow>
          (Inl (Exn builtins_TypeError ''exceptions must derive from BaseException''), s, slept)
      | Some e \<Rightarrow> (Inl e, s, slept))"
| "retry_loop operation max_attempts delay (attempt # rest) last_exception s slept =
     (case operation s of
        (Inr result, s') \<Rightarrow> (Inr result, s', slept)
      | (Inl e, s') \<Rightarrow>
          if attempt = max_attempts then (Inl e, s', slept)
          else
            (case times_pow2 delay (nat (attempt - 1)) of
               Inl overflow \<Rightarrow> (Inl overflow, s', slept)
             | Inr sleep_time \<Rightarrow>
                 if min sleep_time 60 < 0 then
                   (Inl (Exn builtins_ValueError ''sleep length must be non-negative''),
                    s', slept)
                 else
                   retry_loop operation max_attempts delay rest (Some e) s'
                     (slept @ [min sleep_time 60])))"

definition retry_operation ::
  "config \<Rightarrow> ('s \<Rightarrow> (exn + 'a) \<times> 's) \<Rightarrow> int option \<Rightarrow> py_number option \<Rightarrow> 's
     \<Rightarrow> (exn + 'a) \<times> 's \<times> real list" where
  "retry_operation cfg operation max_attempts delay s =
     (let max_attempts' = or_default max_attempts (max_retries cfg);
          delay' = or_number delay (PyInt (retry_delay cfg))
      in retry_loop operation max_attempts' delay' [1..max_attempts'] None s [])"

text \<open>
  \<^verbatim>\<open>with_retry\<close> hands the function to the decorator \<^verbatim>\<open>retry\<close> of the
  third-party library tenacity, whose code is not part of the repository.  The model
  follows the library for the arguments that \<^verbatim>\<open>with_retry\<close> passes.

  \<open>wait_exponential\<close> is \<^verbatim>\<open>wait_exponential(multiplier, max=60)\<close> at an attempt
  number: \<open>multiplier * 2 ** (attempt - 1)\<close> clamped to \<open>[0, 60]\<close>, and 60 when
  the product raises \<^verbatim>\<open>OverflowError\<close>, which the library catches.
\<close>

definition wait_exponential :: "py_number \<Rightarrow> int \<Rightarrow> real" where
  "wait_exponential multiplier attempt_number =
     (case times_pow2 multiplier (nat (attempt_number - 1)) of
        Inl overflow \<Rightarrow> 60
      | Inr result \<Rightarrow> max 0 (min result 60))"

text \<open>
  The \<^verbatim>\<open>before_sleep\<close> callback of \<^verbatim>\<open>with_retry\<close> is
  \<^verbatim>\<open>before_sleep_log(logger, "WARNING")\<close>, where \<^verbatim>\<open>logger\<close> is the module's
  \<^verbatim>\<open>structlog.get_logger()\<close>.  The callback calls
  \<^verbatim>\<open>logger.log("WARNING", ...)\<close>, and \<^verbatim>\<open>log\<close> expects the level as an integer
  (\<^verbatim>\<open>logging.WARNING\<close>): given the string it raises, so the callback never
  returns.  Which exception it raises depends on how structlog is set up when the
  logger is first used.  With structlog's defaults (the module imported on its own,
  as the tests do) the logger compares the level with its minimum level and raises
  \<^verbatim>\<open>TypeError\<close>; after \<^verbatim>\<open>setup_logging()\<close> of \<^verbatim>\<open>src/logger.py\<close>, which the
  command line runs at import, the logger is a \<^verbatim>\<open>structlog.stdlib.BoundLogger\<close>,
  which looks the level up in its table of level names and raises \<^verbatim>\<open>KeyError\<close>.
  \<open>before_sleep_log\<close> is the exception that the callback raises.
\<close>

datatype logging_setup = structlog_defaults | setup_logging

definition before_sleep_log :: "logging_setup \<Rightarrow> exn" where
  "before_sleep_log lg =
     (case lg of
        structlog_defaults \<Rightarrow>
          Exn builtins_TypeError
            ([CHR 0x27] @ ''<'' @ [CHR 0x27] @ '' not supported between instances of ''
             @ [CHR 0x27] @ ''str'' @ [CHR 0x27] @ '' and '' @ [CHR 0x27] @ ''int''
             @ [CHR 0x27])
      | setup_logging \<Rightarrow>
          Exn builtins_KeyError ([CHR 0x27] @ ''WARNING'' @ [CHR 0x27]))"

text \<open>
  \<open>tenacity_retry\<close> is the retry loop of the library.  The function is called; a
  returned value is returned; an exception that is no instance of the classes given
  to \<^verbatim>\<open>retry_if_exception_type\<close> is raised as it is; otherwise, once
  \<^verbatim>\<open>stop_after_attempt(n)\<close> holds (the attempt number has reached \<open>n\<close>), a
  \<^verbatim>\<open>RetryError\<close> wrapping the last exception is raised (\<^verbatim>\<open>reraise\<close> is left at
  its default \<^verbatim>\<open>False\<close>); otherwise the wait is computed and the
  \<^verbatim>\<open>before_sleep\<close> callback is called: \<open>before_sleep\<close> is \<open>Some x\<close> for a
  callback that raises \<open>x\<close>, which then leaves the wrapper before any sleep, and
  \<open>None\<close> for one that returns, after which the wrapper sleeps and calls the
  function again.
\<close>

function tenacity_retry ::
  "int \<Rightarrow> py_number \<Rightarrow> exn_class list \<Rightarrow> exn option \<Rightarrow> ('s \<Rightarrow> (exn + 'a) \<times> 's) \<Rightarrow> int \<Rightarrow> 's
     \<Rightarrow> real list \<Rightarrow> (exn + 'a) \<times> 's \<times> real list" where
  "tenacity_retry stop multiplier exceptions before_sleep func attempt_number s slept =
     (case func s of
        (Inr result, s') \<Rightarrow> (Inr result, s', slept)
      | (Inl e, s') \<Rightarrow>
          if \<not> isinstance e exceptions then (Inl e, s', slept)
          else if attempt_number \<ge> stop then (Inl (RetryError e), s', slept)
          else
            (case before_sleep of
               Some x \<Rightarrow> (Inl x, s', slept)
             | None \<Rightarrow>
                 tenacity_retry stop multiplier exceptions before_sleep func
                   (attempt_number + 1) s'
                   (slept @ [wait_exponential multiplier attempt_number])))"
  by pat_completeness auto
termination
  by (relation "measure (\<lambda>(stop, multiplier, exceptions, before_sleep, func, attempt_number,
        s, slept). nat (stop - attempt_number))") auto

declare tenacity_retry.simps [simp del]

text \<open>
  \<^verbatim>\<open>with_retry\<close>: the decorated function, called in state \<open>s\<close>.  \<open>lg\<close> is the
  logging set-up at the time of the call.
\<close>

definition with_retry ::
  "logging_setup \<Rightarrow> config \<Rightarrow> int option \<Rightarrow> py_number option \<Rightarrow> exn_class list
     \<Rightarrow> ('s \<Rightarrow> (exn + 'a) \<times> 's) \<Rightarrow> 's \<Rightarrow> (exn + 'a) \<times> 's \<times> real list" where
  "with_retry lg cfg max_attempts delay exceptions func s =
     (let max_attempts' = or_default max_attempts (max_retries cfg);
          delay' = or_number delay (PyInt (retry_delay cfg))
      in tenacity_retry max_attempts' delay' exceptions (Some (before_sleep_log lg)) func 1
           s [])"

text \<open>The state after \<open>k\<close> invocations of a callable, whatever they returned.\<close>

definition after_calls :: "('s \<Rightarrow> (exn + 'a) \<times> 's) \<Rightarrow> nat \<Rightarrow> 's \<Rightarrow> 's" where
  "after_calls func k s = ((\<lambda>x. snd (func x)) ^^ k) s"

text \<open>
  A connector method decorated with \<^verbatim>\<open>@with_retry()\<close>: all arguments at their
  defaults.  \<open>attempts k\<close> is what the method body does at its \<open>k\<close>-th
  invocation (counted from 0); the state counts the invocations.
\<close>

definition decorated ::
  "logging_setup \<Rightarrow> config \<Rightarrow> (nat \<Rightarrow> exn + 'a) \<Rightarrow> (exn + 'a) \<times> nat \<times> real list" where
  "decorated lg cfg attempts =
     with_retry lg cfg None None RETRIABLE_EXCEPTIONS (\<lambda>k. (attempts k, Suc k)) 0"

section \<open>Strings\<close>

text \<open>
  \<^verbatim>\<open>str.lower\<close> on ASCII letters, \<^verbatim>\<open>str.lstrip(chars)\<close> for one character,
  \<^verbatim>\<open>str.strip()\<close>, \<^verbatim>\<open>os.path.basename\<close> of \<^verbatim>\<open>posixpath\<close>, and the decimal
  text of an integer as an f-string prints it.  A character is a code point below
  256; \<open>isspace\<close> holds of those that \<^verbatim>\<open>str.isspace\<close> accepts: tab to carriage
  return, the four separators \<^verbatim>\<open>0x1C\<close> to \<^verbatim>\<open>0x1F\<close>, the space, \<^verbatim>\<open>0x85\<close> and
  \<^verbatim>\<open>0xA0\<close>.
\<close>

definition lower_char :: "char \<Rightarrow> char" where
  "lower_char c =
     (case map_of (zip ''ABCDEFGHIJKLMNOPQRSTUVWXYZ'' ''abcdefghijklmnopqrstuvwxyz'') c of
        None \<Rightarrow> c
      | Some d \<Rightarrow> d)"

definition lower :: "string \<Rightarrow> string" where
  "lower s = map lower_char s"

definition lstrip :: "char \<Rightarrow> string \<Rightarrow> string" where
  "lstrip c s = dropWhile (\<lambda>x. x = c) s"

definition isspace :: "char \<Rightarrow> bool" where
  "isspace c =
     (c \<in> set [CHR 0x09, CHR 0x0A, CHR 0x0B, CHR 0x0C, CHR 0x0D, CHR 0x1C, CHR 0x1D,
               CHR 0x1E, CHR 0x1F, CHR '' '', CHR 0x85, CHR 0xA0])"

definition strip :: "string \<Rightarrow> string" where
  "strip s = rev (dropWhile isspace (rev (dropWhile isspace s)))"

definition basename :: "string \<Rightarrow> string" where
  "basename p = rev (takeWhile (\<lambda>x. x \<noteq> CHR ''/'') (rev p))"

fun digits :: "nat \<Rightarrow> string" where
  "digits n =
     (if n < 10 then [''0123456789'' ! n]
      else digits (n div 10) @ [''0123456789'' ! (n mod 10)])"

declare digits.simps [simp del]

definition string_of_int :: "int \<Rightarrow> string" where
  "string_of_int i = (if i < 0 then ''-'' @ digits (nat (- i)) else digits (nat i))"

text \<open>\<^verbatim>\<open>int(x)\<close> of a float truncates towards zero.\<close>

definition py_int :: "real \<Rightarrow> int" where
  "py_int x = (if x \<ge> 0 then \<lfloor>x\<rfloor> else \<lceil>x\<rceil>)"

text \<open>An optional string inside an f-string: \<^verbatim>\<open>None\<close> prints as \<^verbatim>\<open>None\<close>.\<close>

definition fmt :: "string option \<Rightarrow> string" where
  "fmt x = (case x of None \<Rightarrow> ''None'' | Some m \<Rightarrow> m)"

section \<open>URL resolver (\<^verbatim>\<open>MultiCloudTransferManager._parse_cloud_url\<close>)\<close>

text \<open>
  The six components of the result of \<^verbatim>\<open>urllib.parse.urlparse\<close>.  The standard
  library's \<^verbatim>\<open>urlparse\<close> is a parameter of the model: a function from the URL to
  its components, or to the exception it raises.
\<close>

record parsed_url =
  url_scheme :: string
  url_netloc :: string
  url_path :: string
  url_params :: string
  url_query :: string
  url_fragment :: string

definition parse_cloud_url ::
  "(string \<Rightarrow> exn + parsed_url) \<Rightarrow> string \<Rightarrow> exn + string \<times> string \<times> string" where
  "parse_cloud_url urlparse url =
     (case urlparse url of
        Inl e \<Rightarrow> Inl e
      | Inr parsed \<Rightarrow>
          (let scheme = lower (url_scheme parsed);
               container = url_netloc parsed;
               path = lstrip CHR ''/'' (url_path parsed)
           in if scheme \<in> set [''s3''] then Inr (''aws'', container, path)
              else if scheme \<in> set [''azure''] then Inr (''azure'', container, path)
              else if scheme \<in> set [''gcs'', ''gs''] then Inr (''gcp'', container, path)
              else Inl (Exn builtins_ValueError (''Unsupported URL scheme: '' @ scheme))))"

text \<open>
  A stand-in for \<^verbatim>\<open>urlparse\<close> to run the model on concrete URLs; it follows
  \<^verbatim>\<open>urlsplit\<close> and \<^verbatim>\<open>urlparse\<close> of \<^verbatim>\<open>urllib/parse.py\<close> (Python 3.11) line by
  line.  Leading C0 control characters and spaces are stripped and every tab,
  carriage return and line feed is removed.  The scheme is the text before the first
  colon when that text starts with a letter and consists of letters, digits, \<^verbatim>\<open>+\<close>,
  \<^verbatim>\<open>-\<close> and \<^verbatim>\<open>.\<close>, lower-cased.  The netloc follows \<^verbatim>\<open>//\<close> up to the first of
  \<^verbatim>\<open>/ ? #\<close>; a netloc with one of the two square brackets but not the other raises
  \<^verbatim>\<open>ValueError\<close>.  Fragment and query are cut off the rest, and for a scheme of
  \<^verbatim>\<open>uses_params\<close> the parameters are cut off the last path segment.  Two checks of
  the library are not modelled, and the stand-in is not meant for the URLs they
  concern: the validation of a host between square brackets as an IP address, and
  the normalisation check of a netloc with characters outside ASCII.
\<close>

definition is_alpha :: "char \<Rightarrow> bool" where
  "is_alpha c =
     (c \<in> set ''abcdefghijklmnopqrstuvwxyzABCDEFGHIJKLMNOPQRSTUVWXYZ'')"

definition is_scheme_char :: "char \<Rightarrow> bool" where
  "is_scheme_char c = (is_alpha c \<or> c \<in> set ''0123456789+-.'')"

text \<open>\<^verbatim>\<open>_WHATWG_C0_CONTROL_OR_SPACE\<close> and \<^verbatim>\<open>_UNSAFE_URL_BYTES_TO_REMOVE\<close>.\<close>

definition c0_control_or_space :: "char \<Rightarrow> bool" where
  "c0_control_or_space c =
     (c \<in> set [CHR 0x00, CHR 0x01, CHR 0x02, CHR 0x03, CHR 0x04, CHR 0x05, CHR 0x06,
               CHR 0x07, CHR 0x08, CHR 0x09, CHR 0x0A, CHR 0x0B, CHR 0x0C, CHR 0x0D,
               CHR 0x0E, CHR 0x0F, CHR 0x10, CHR 0x11, CHR 0x12, CHR 0x13, CHR 0x14,
               CHR 0x15, CHR 0x16, CHR 0x17, CHR 0x18, CHR 0x19, CHR 0x1A, CHR 0x1B,
               CHR 0x1C, CHR 0x1D, CHR 0x1E, CHR 0x1F, CHR '' ''])"

definition unsafe_url_byte :: "char \<Rightarrow> bool" where
  "unsafe_url_byte c = (c \<in> set [CHR 0x09, CHR 0x0D, CHR 0x0A])"

definition uses_params :: "string list" where
  "uses_params =
     [[], ''ftp'', ''hdl'', ''prospero'', ''http'', ''imap'', ''https'', ''shttp'', ''rtsp'',
      ''rtsps'', ''rtspu'', ''sip'', ''sips'', ''mms'', ''sftp'', ''tel'']"

definition split_scheme :: "string \<Rightarrow> string \<times> string" where
  "split_scheme url =
     (let pre = takeWhile (\<lambda>x. x \<noteq> CHR '':'') url
      in if length pre < length url \<and> pre \<noteq> [] \<and> is_alpha (hd pre) \<and> list_all is_scheme_char pre
         then (lower pre, drop (Suc (length pre)) url)
         else ([], url))"

definition split_netloc :: "string \<Rightarrow> string \<times> string" where
  "split_netloc rest =
     (if take 2 rest = ''//'' then
        (let after = drop 2 rest;
             loc = takeWhile (\<lambda>x. x \<notin> {CHR ''/'', CHR ''?'', CHR ''#''}) after
         in (loc, drop (length loc) after))
      else ([], rest))"

definition cut_at :: "char \<Rightarrow> string \<Rightarrow> string \<times> string" where
  "cut_at c s =
     (let pre = takeWhile (\<lambda>x. x \<noteq> c) s in (pre, drop (Suc (length pre)) s))"

text \<open>
  \<^verbatim>\<open>_splitparams\<close>, called on a text with a semicolon: the text is cut at the
  first semicolon after the last slash, and not at all when there is none.
\<close>

definition splitparams :: "string \<Rightarrow> string \<times> string" where
  "splitparams url =
     (let seg = rev (takeWhile (\<lambda>x. x \<noteq> CHR ''/'') (rev url));
          front = take (length url - length seg) url
      in if CHR '';'' \<in> set seg then
           (front @ fst (cut_at CHR '';'' seg), snd (cut_at CHR '';'' seg))
         else (url, []))"

definition urlparse_model :: "string \<Rightarrow> exn + parsed_url" where
  "urlparse_model url0 =
     (let url = filter (\<lambda>c. \<not> unsafe_url_byte c) (dropWhile c0_control_or_space url0)
      in case split_scheme url of
           (scheme, rest) \<Rightarrow>
             (case split_netloc rest of
                (loc, rest1) \<Rightarrow>
                  if (CHR ''['' \<in> set loc \<and> CHR '']'' \<notin> set loc)
                     \<or> (CHR '']'' \<in> set loc \<and> CHR ''['' \<notin> set loc)
                  then Inl (Exn builtins_ValueError ''Invalid IPv6 URL'')
                  else
                    (case cut_at CHR ''#'' rest1 of
                       (rest2, frag) \<Rightarrow>
                         (case cut_at CHR ''?'' rest2 of
                            (p, q) \<Rightarrow>
                              (case (if scheme \<in> set uses_params \<and> CHR '';'' \<in> set p
                                     then splitparams p else (p, [])) of
                                 (p', params) \<Rightarrow>
                                   Inr \<lparr>url_scheme = scheme, url_netloc = loc,
                                        url_path = p', url_params = params, url_query = q,
                                        url_fragment = frag\<rparr>)))))"

section \<open>Transfer results (\<^verbatim>\<open>src/connectors/base.py\<close>)\<close>

record transfer_result =
  success :: bool
  source_path :: string
  destination_path :: string
  bytes_transferred :: int
  duration_seconds :: real
  error_message :: "string option"

text \<open>
  The dataclass constructor with its three defaulted fields at their defaults; a
  caller that passes one of them as a keyword argument is a record update.
\<close>

definition TransferResult :: "bool \<Rightarrow> string \<Rightarrow> string \<Rightarrow> transfer_result" where
  "TransferResult ok src dst =
     \<lparr>success = ok, source_path = src, destination_path = dst, bytes_transferred = 0,
      duration_seconds = 0, error_message = None\<rparr>"

text \<open>
  The invariant that the specification states for an outcome, and its part that does
  not mention the duration.
\<close>

definition outcome_shape :: "transfer_result \<Rightarrow> bool" where
  "outcome_shape r =
     ((success r \<longleftrightarrow> error_message r = None) \<and> (\<not> success r \<longrightarrow> bytes_transferred r = 0))"

definition outcome_ok :: "transfer_result \<Rightarrow> bool" where
  "outcome_ok r = (outcome_shape r \<and> (\<not> success r \<longrightarrow> duration_seconds r = 0))"

section \<open>Connectors (\<^verbatim>\<open>src/connectors\<close>)\<close>

datatype connector = S3Connector | AzureBlobConnector | GCPStorageConnector

definition quoted :: "string \<Rightarrow> string" where
  "quoted s = CHR 0x27 # s @ [CHR 0x27]"

text \<open>\<^verbatim>\<open>get_connector_by_name\<close> (\<^verbatim>\<open>src/connectors/__init__.py\<close>).\<close>

definition get_connector_by_name :: "string \<Rightarrow> exn + connector" where
  "get_connector_by_name provider_name =
     (let name = strip (lower provider_name)
      in if name \<in> set [''aws'', ''s3'', ''aws_s3''] then Inr S3Connector
         else if name \<in> set [''azure'', ''blob'', ''azure_blob''] then Inr AzureBlobConnector
         else if name \<in> set [''gcp'', ''gcs'', ''google'', ''gcp_storage'']
           then Inr GCPStorageConnector
         else Inl (Exn builtins_ValueError
                (''Unsupported provider '' @ quoted name @ ''. Supported: ''
                 @ ''['' @ quoted ''aws/s3'' @ '', '' @ quoted ''azure/blob'' @ '', ''
                 @ quoted ''gcp/gcs'' @ '']'')))"

text \<open>
  A connector method talks to its backend through the SDK.  One invocation of a method
  body is run against the answers that the environment gives to it, in the order in
  which the body asks:
  \<^item> \<open>ans_auth\<close>: the lazy \<^verbatim>\<open>if not self._client: self.authenticate()\<close> at the top
    of every method, \<open>None\<close> when the handle was there or \<^verbatim>\<open>authenticate\<close>
    returned, the exception when it raised;
  \<^item> \<open>ans_start\<close>, \<open>ans_end\<close>: the two readings of \<^verbatim>\<open>time.time()\<close>;
  \<^item> \<open>ans_local_exists\<close>, \<open>ans_local_size\<close>: \<^verbatim>\<open>Path(local_path).exists()\<close> and
    \<^verbatim>\<open>stat().st_size\<close>;
  \<^item> \<open>ans_mkdir\<close>: \<^verbatim>\<open>local_file.parent.mkdir(...)\<close>;
  \<^item> \<open>ans_size\<close>: the size request (\<^verbatim>\<open>head_object\<close>, \<^verbatim>\<open>get_blob_properties\<close>);
  \<^item> \<open>ans_exists\<close>: \<^verbatim>\<open>blob.exists()\<close>;
  \<^item> \<open>ans_gcp_size\<close>: \<^verbatim>\<open>blob.reload()\<close> and the optional \<^verbatim>\<open>blob.size\<close>;
  \<^item> \<open>ans_transfer\<close>: the call that moves or deletes the object;
  \<^item> \<open>ans_copy_status\<close>: the copy status that the \<open>k\<close>-th poll of the Azure copy
    reads.
  Log calls are not modelled.
\<close>

record sdk_answers =
  ans_auth :: "exn option"
  ans_start :: real
  ans_end :: real
  ans_local_exists :: bool
  ans_local_size :: int
  ans_mkdir :: "exn option"
  ans_size :: "exn + int"
  ans_exists :: "exn + bool"
  ans_gcp_size :: "exn + int option"
  ans_transfer :: "exn option"
  ans_copy_status :: "nat \<Rightarrow> exn + string"

definition error_code :: "exn \<Rightarrow> string" where
  "error_code e = (case e of ClientError code m \<Rightarrow> code | _ \<Rightarrow> [])"

definition failed :: "string \<Rightarrow> string \<Rightarrow> string \<Rightarrow> transfer_result" where
  "failed src dst error_msg = (TransferResult False src dst)\<lparr>error_message := Some error_msg\<rparr>"

definition succeeded :: "string \<Rightarrow> string \<Rightarrow> int \<Rightarrow> real \<Rightarrow> transfer_result" where
  "succeeded src dst file_size duration =
     (TransferResult True src dst)\<lparr>bytes_transferred := file_size, duration_seconds := duration\<rparr>"

definition cloud_url :: "string \<Rightarrow> string \<Rightarrow> string \<Rightarrow> string" where
  "cloud_url scheme container path = scheme @ ''://'' @ container @ ''/'' @ path"

subsection \<open>\<^verbatim>\<open>S3Connector\<close>: only \<^verbatim>\<open>ClientError\<close> is caught\<close>





definition s3_delete_file :: "sdk_answers \<Rightarrow> exn + bool" where
  "s3_delete_file a =
     (case ans_auth a of
        Some e \<Rightarrow> Inl e
      | None \<Rightarrow>
          (case ans_transfer a of
             None \<Rightarrow> Inr True
           | Some e \<Rightarrow> if isinstance e [botocore_ClientError] then Inr False else Inl e))"

definition s3_file_exists :: "sdk_answers \<Rightarrow> exn + bool" where
  "s3_file_exists a =
     (case ans_auth a of
        Some e \<Rightarrow> Inl e
      | None \<Rightarrow>
          (case ans_size a of
             Inr response \<Rightarrow> Inr True
           | Inl e \<Rightarrow>
               if isinstance e [botocore_ClientError] then
                 (if error_code e = ''404'' then Inr False else Inl e)
               else Inl e))"

subsection \<open>\<^verbatim>\<open>AzureBlobConnector\<close>: every \<^verbatim>\<open>Exception\<close> of the \<^verbatim>\<open>try\<close> is caught\<close>





definition azure_delete_file :: "sdk_answers \<Rightarrow> exn + bool" where
  "azure_delete_file a =
     (case ans_auth a of
        Some e \<Rightarrow> Inl e
      | None \<Rightarrow>
          (case ans_transfer a of
             None \<Rightarrow> Inr True
           | Some e \<Rightarrow> if isinstance e [builtins_Exception] then Inr False else Inl e))"

definition azure_file_exists :: "sdk_answers \<Rightarrow> exn + bool" where
  "azure_file_exists a =
     (case ans_auth a of
        Some e \<Rightarrow> Inl e
      | None \<Rightarrow>
          (case ans_exists a of
             Inr found \<Rightarrow> Inr found
           | Inl e \<Rightarrow> if isinstance e [builtins_Exception] then Inr False else Inl e))"

subsection \<open>\<^verbatim>\<open>GCPStorageConnector\<close>: every \<^verbatim>\<open>Exception\<close> of the \<^verbatim>\<open>try\<close> is caught\<close>





definition gcp_delete_file :: "sdk_answers \<Rightarrow> exn + bool" where
  "gcp_delete_file a =
     (case ans_auth a of
        Some e \<Rightarrow> Inl e
      | None \<Rightarrow>
          (case ans_transfer a of
             None \<Rightarrow> Inr True
           | Some e \<Rightarrow> if isinstance e [builtins_Exception] then Inr False else Inl e))"

definition gcp_file_exists :: "sdk_answers \<Rightarrow> exn + bool" where
  "gcp_file_exists a =
     (case ans_auth a of
        Some e \<Rightarrow> Inl e
      | None \<Rightarrow>
          (case ans_exists a of
             Inr found \<Rightarrow> Inr found
           | Inl e \<Rightarrow> if isinstance e [builtins_Exception] then Inr False else Inl e))"

subsection \<open>Dispatch on the connector's class\<close>




definition delete_file_body :: "connector \<Rightarrow> sdk_answers \<Rightarrow> exn + bool" where
  "delete_file_body c =
     (case c of S3Connector \<Rightarrow> s3_delete_file | AzureBlobConnector \<Rightarrow> azure_delete_file
      | GCPStorageConnector \<Rightarrow> gcp_delete_file)"

text \<open>
  \<^verbatim>\<open>delete_file\<close> carries \<^verbatim>\<open>@with_retry()\<close>; \<open>answers k\<close> are the answers to the
  \<open>k\<close>-th invocation of the body.  \<^verbatim>\<open>file_exists\<close> is not decorated.
\<close>

definition delete_file ::
  "logging_setup \<Rightarrow> config \<Rightarrow> connector \<Rightarrow> (nat \<Rightarrow> sdk_answers)
     \<Rightarrow> (exn + bool) \<times> nat \<times> real list" where
  "delete_file lg cfg c answers = decorated lg cfg (\<lambda>k. delete_file_body c (answers k))"

definition file_exists :: "connector \<Rightarrow> sdk_answers \<Rightarrow> exn + bool" where
  "file_exists c =
     (case c of S3Connector \<Rightarrow> s3_file_exists | AzureBlobConnector \<Rightarrow> azure_file_exists
      | GCPStorageConnector \<Rightarrow> gcp_file_exists)"

section \<open>Transfer orchestrator (\<^verbatim>\<open>src/transfer_manager.py\<close>)\<close>

text \<open>
  The world that the orchestrator acts on: the wall clock, the local files that exist,
  the local files that the operating system refuses to remove, the manager's
  \<^verbatim>\<open>_connectors\<close> dictionary, and the state of the backends.
\<close>

record 'r world =
  now :: real
  files :: "string set"
  locked :: "string set"
  connectors :: "string \<rightharpoonup> connector"
  remote :: 'r

type_synonym kwargs = "(string \<times> string) list"

text \<open>
  What the orchestrator calls but does not define: \<^verbatim>\<open>urlparse\<close> and the methods of
  the connector objects.  Each method changes the world and returns or raises; it is
  taken to come back.  Nothing else is assumed of them.
\<close>

record 'r env =
  urlparse :: "string \<Rightarrow> exn + parsed_url"
  authenticate :: "connector \<Rightarrow> 'r world \<Rightarrow> (exn + bool) \<times> 'r world"
  copy_file ::
    "connector \<Rightarrow> string \<Rightarrow> string \<Rightarrow> string \<Rightarrow> string \<Rightarrow> kwargs \<Rightarrow> 'r world
       \<Rightarrow> (exn + transfer_result) \<times> 'r world"
  download_file ::
    "connector \<Rightarrow> string \<Rightarrow> string \<Rightarrow> string \<Rightarrow> 'r world \<Rightarrow> (exn + transfer_result) \<times> 'r world"
  upload_file ::
    "connector \<Rightarrow> string \<Rightarrow> string \<Rightarrow> string \<Rightarrow> kwargs \<Rightarrow> 'r world
       \<Rightarrow> (exn + transfer_result) \<times> 'r world"

text \<open>
  \<^verbatim>\<open>_get_connector\<close>: the connector is stored before it is authenticated, and an
  \<^verbatim>\<open>authenticate\<close> that returns false raises a plain \<^verbatim>\<open>Exception\<close>.
\<close>

definition get_connector :: "'r env \<Rightarrow> string \<Rightarrow> 'r world \<Rightarrow> (exn + connector) \<times> 'r world" where
  "get_connector env provider w =
     (case connectors w provider of
        Some c \<Rightarrow> (Inr c, w)
      | None \<Rightarrow>
          (case get_connector_by_name provider of
             Inl e \<Rightarrow> (Inl e, w)
           | Inr c \<Rightarrow>
               (case authenticate env c (w\<lparr>connectors := (connectors w)(provider \<mapsto> c)\<rparr>) of
                  (Inl e, w1) \<Rightarrow> (Inl e, w1)
                | (Inr ok, w1) \<Rightarrow>
                    if \<not> ok then
                      (Inl (Exn builtins_Exception (''Failed to authenticate with '' @ provider)), w1)
                    else (Inr c, w1))))"

text \<open>
  \<^verbatim>\<open>Path.unlink\<close> and the \<^verbatim>\<open>finally\<close> block of \<^verbatim>\<open>_copy_via_temp\<close>: when the file
  exists it is unlinked, and an exception of the unlink is caught (every exception of
  the model is an \<^verbatim>\<open>Exception\<close>) and only logged as a warning.
\<close>

definition unlink :: "string \<Rightarrow> 'r world \<Rightarrow> (exn + unit) \<times> 'r world" where
  "unlink p w =
     (if p \<notin> files w then (Inl (Exn builtins_OSError ''No such file or directory''), w)
      else if p \<in> locked w then (Inl (Exn builtins_PermissionError ''Permission denied''), w)
      else (Inr (), w\<lparr>files := files w - {p}\<rparr>))"

definition cleanup_temp :: "string \<Rightarrow> 'r world \<Rightarrow> 'r world" where
  "cleanup_temp temp_file_path w =
     (if temp_file_path \<in> files w then
        (case unlink temp_file_path w of
           (Inr u, w1) \<Rightarrow> w1
         | (Inl e, w1) \<Rightarrow> w1)
      else w)"

text \<open>
  The name of the staging file: \<^verbatim>\<open>self._temp_dir / temp_filename\<close> with
  \<^verbatim>\<open>temp_filename = f"temp_{int(time.time())}_{os.path.basename(source_path)}"\<close>.
  The method reads the clock twice in a row, for \<^verbatim>\<open>start_time\<close> and for the name;
  both readings are the clock of the world in which the method starts.
\<close>

definition temp_file_path :: "real \<Rightarrow> string \<Rightarrow> string" where
  "temp_file_path t src_path =
     ''temp_transfers'' @ ''/'' @ (''temp_'' @ string_of_int (py_int t) @ ''_'' @ basename src_path)"

text \<open>The \<^verbatim>\<open>try\<close> block of \<^verbatim>\<open>_copy_via_temp\<close>.\<close>

definition copy_via_temp_try ::
  "'r env \<Rightarrow> real \<Rightarrow> string \<Rightarrow> string \<Rightarrow> string \<Rightarrow> string \<Rightarrow> string \<Rightarrow> string \<Rightarrow> string \<Rightarrow> kwargs
     \<Rightarrow> 'r world \<Rightarrow> (exn + transfer_result) \<times> 'r world" where
  "copy_via_temp_try env start_time temp source_provider source_container src_path
       dest_provider dest_container dst_path kw w =
     (case get_connector env source_provider w of
        (Inl e, w1) \<Rightarrow> (Inl e, w1)
      | (Inr source_connector, w1) \<Rightarrow>
          (case download_file env source_connector source_container src_path temp w1 of
             (Inl e, w2) \<Rightarrow> (Inl e, w2)
           | (Inr download_result, w2) \<Rightarrow>
               if \<not> success download_result then
                 (Inr (failed (cloud_url source_provider source_container src_path)
                         (cloud_url dest_provider dest_container dst_path)
                         (''Download failed: '' @ fmt (error_message download_result))), w2)
               else
                 (case get_connector env dest_provider w2 of
                    (Inl e, w3) \<Rightarrow> (Inl e, w3)
                  | (Inr dest_connector, w3) \<Rightarrow>
                      (case upload_file env dest_connector temp dest_container dst_path kw w3 of
                         (Inl e, w4) \<Rightarrow> (Inl e, w4)
                       | (Inr upload_result, w4) \<Rightarrow>
                           if \<not> success upload_result then
                             (Inr (failed (cloud_url source_provider source_container src_path)
                                     (cloud_url dest_provider dest_container dst_path)
                                     (''Upload failed: '' @ fmt (error_message upload_result))),
                              w4)
                           else
                             (Inr (succeeded
                                     (cloud_url source_provider source_container src_path)
                                     (cloud_url dest_provider dest_container dst_path)
                                     (bytes_transferred download_result)
                                     (now w4 - start_time)), w4)))))"

definition copy_via_temp ::
  "'r env \<Rightarrow> string \<Rightarrow> string \<Rightarrow> string \<Rightarrow> string \<Rightarrow> string \<Rightarrow> string \<Rightarrow> kwargs \<Rightarrow> 'r world
     \<Rightarrow> (exn + transfer_result) \<times> 'r world" where
  "copy_via_temp env source_provider source_container src_path
       dest_provider dest_container dst_path kw w =
     (let start_time = now w;
          temp = temp_file_path (now w) src_path
      in case copy_via_temp_try env start_time temp source_provider source_container src_path
                dest_provider dest_container dst_path kw w of
           (r, w1) \<Rightarrow> (r, cleanup_temp temp w1))"

text \<open>
  \<^verbatim>\<open>copy_file_direct\<close>.  Both URLs are parsed before the \<^verbatim>\<open>try\<close>, so an exception
  of the parser leaves the method; every exception raised inside the \<^verbatim>\<open>try\<close>
  becomes a failed result that carries the elapsed time.
\<close>

definition copy_file_direct ::
  "'r env \<Rightarrow> string \<Rightarrow> string \<Rightarrow> kwargs \<Rightarrow> 'r world \<Rightarrow> (exn + transfer_result) \<times> 'r world" where
  "copy_file_direct env source_url dest_url kw w =
     (let start_time = now w
      in case parse_cloud_url (urlparse env) source_url of
           Inl e \<Rightarrow> (Inl e, w)
         | Inr (source_provider, source_container, src_path) \<Rightarrow>
             (case parse_cloud_url (urlparse env) dest_url of
                Inl e \<Rightarrow> (Inl e, w)
              | Inr (dest_provider, dest_container, dst_path) \<Rightarrow>
                  (case (if source_provider = dest_provider then
                           (case get_connector env source_provider w of
                              (Inl e, w1) \<Rightarrow> (Inl e, w1)
                            | (Inr c, w1) \<Rightarrow>
                                copy_file env c source_container src_path
                                  dest_container dst_path kw w1)
                         else
                           copy_via_temp env source_provider source_container src_path
                             dest_provider dest_container dst_path kw w) of
                     (Inr result, w') \<Rightarrow> (Inr result, w')
                   | (Inl e, w') \<Rightarrow>
                       if isinstance e [builtins_Exception] then
                         (Inr ((failed source_url dest_url
                                  (''Multi-cloud copy failed: '' @ str e))
                               \<lparr>duration_seconds := now w' - start_time\<rparr>), w')
                       else (Inl e, w'))))"

text \<open>
  \<^verbatim>\<open>batch_copy\<close>: the loop appends one result for each pair, and an exception that
  leaves \<^verbatim>\<open>copy_file_direct\<close> leaves the loop and the method.
\<close>

fun batch_loop ::
  "'r env \<Rightarrow> (string \<times> string) list \<Rightarrow> kwargs \<Rightarrow> transfer_result list \<Rightarrow> 'r world
     \<Rightarrow> (exn + transfer_result list) \<times> 'r world" where
  "batch_loop env [] kw results w = (Inr results, w)"
| "batch_loop env ((source_url, dest_url) # rest) kw results w =
     (case copy_file_direct env source_url dest_url kw w of
        (Inl e, w1) \<Rightarrow> (Inl e, w1)
      | (Inr result, w1) \<Rightarrow> batch_loop env rest kw (results @ [result]) w1)"

definition batch_copy ::
  "'r env \<Rightarrow> (string \<times> string) list \<Rightarrow> kwargs \<Rightarrow> 'r world
     \<Rightarrow> (exn + transfer_result list) \<times> 'r world" where
  "batch_copy env transfers kw w = batch_loop env transfers kw [] w"

section \<open>An environment to run the orchestrator on\<close>

text \<open>
  A small backend for concrete runs.  The backends hold objects under the key
  \<open>container/path\<close>.  A download writes its local file and takes two seconds; an
  upload raises when its local file is missing, reports a failure for the container
  \<open>full\<close> and stores the object otherwise; a copy fails when the source is missing.
  The GCP connector has no credentials: its \<^verbatim>\<open>authenticate\<close> raises after one
  second.
\<close>

definition object_key :: "string \<Rightarrow> string \<Rightarrow> string" where
  "object_key container path = container @ ''/'' @ path"

definition demo_authenticate :: "connector \<Rightarrow> string set world \<Rightarrow> (exn + bool) \<times> string set world" where
  "demo_authenticate c w =
     (if c = GCPStorageConnector then
        (Inl (Exn base_ConnectionError
                ''GCP connection failed: GCP credentials not configured properly''),
         w\<lparr>now := now w + 1\<rparr>)
      else (Inr True, w))"

definition demo_copy_file ::
  "connector \<Rightarrow> string \<Rightarrow> string \<Rightarrow> string \<Rightarrow> string \<Rightarrow> kwargs \<Rightarrow> string set world
     \<Rightarrow> (exn + transfer_result) \<times> string set world" where
  "demo_copy_file c sc sp dc dp kw w =
     (if object_key sc sp \<in> remote w then
        (Inr (succeeded (object_key sc sp) (object_key dc dp) 5 2),
         w\<lparr>now := now w + 2, remote := insert (object_key dc dp) (remote w)\<rparr>)
      else
        (Inr (failed (object_key sc sp) (object_key dc dp) ''source not found''),
         w\<lparr>now := now w + 1\<rparr>))"

definition demo_download_file ::
  "connector \<Rightarrow> string \<Rightarrow> string \<Rightarrow> string \<Rightarrow> string set world
     \<Rightarrow> (exn + transfer_result) \<times> string set world" where
  "demo_download_file c sc sp local_path w =
     (if object_key sc sp \<in> remote w then
        (Inr (succeeded (object_key sc sp) local_path 5 2),
         w\<lparr>now := now w + 2, files := insert local_path (files w)\<rparr>)
      else
        (Inr (failed (object_key sc sp) local_path ''source not found''),
         w\<lparr>now := now w + 1\<rparr>))"

definition demo_upload_file ::
  "connector \<Rightarrow> string \<Rightarrow> string \<Rightarrow> string \<Rightarrow> kwargs \<Rightarrow> string set world
     \<Rightarrow> (exn + transfer_result) \<times> string set world" where
  "demo_upload_file c local_path dc dp kw w =
     (if local_path \<notin> files w then
        (Inl (Exn base_FileNotFoundError (''Local file '' @ quoted local_path @ '' not found'')), w)
      else if dc = ''full'' then
        (Inr (failed local_path (object_key dc dp) ''quota exceeded''), w\<lparr>now := now w + 1\<rparr>)
      else
        (Inr (succeeded local_path (object_key dc dp) 5 2),
         w\<lparr>now := now w + 2, remote := insert (object_key dc dp) (remote w)\<rparr>))"

definition demo_env :: "string set env" where
  "demo_env =
     \<lparr>urlparse = urlparse_model, authenticate = demo_authenticate,
      copy_file = demo_copy_file, download_file = demo_download_file,
      upload_file = demo_upload_file\<rparr>"

text \<open>
  A world at time 1700000000 with one object \<open>bkt/a.txt\<close>, no local file and no
  connector yet; in \<open>demo_world_locked\<close> the operating system refuses to remove the
  staging file of a transfer of \<open>a.txt\<close> that starts now.
\<close>

definition demo_world :: "string set world" where
  "demo_world =
     \<lparr>now = 1700000000, files = {}, locked = {}, connectors = Map.empty,
      remote = {''bkt/a.txt''}\<rparr>"

definition demo_world_locked :: "string set world" where
  "demo_world_locked = demo_world\<lparr>locked := {''temp_transfers/temp_1700000000_a.txt''}\<rparr>"

definition demo_config :: config where
  "demo_config = \<lparr>max_retries = 3, retry_delay = 2\<rparr>"

text \<open>
  Breakers with timeout 60 and threshold 2 or 3, and two callables on a world that is
  the clock: each takes one second; one returns 7, the other raises the connectors'
  \<^verbatim>\<open>ConnectionError\<close>.
\<close>

definition demo_breaker :: "cb_state \<Rightarrow> int \<Rightarrow> real option \<Rightarrow> circuit_breaker" where
  "demo_breaker st n t =
     \<lparr>failure_threshold = 2, timeout = 60, failure_count = n, last_failure_time = t,
      state = st\<rparr>"

definition demo_breaker3 :: "cb_state \<Rightarrow> int \<Rightarrow> real option \<Rightarrow> circuit_breaker" where
  "demo_breaker3 st n t =
     \<lparr>failure_threshold = 3, timeout = 60, failure_count = n, last_failure_time = t,
      state = st\<rparr>"

definition demo_clock :: "real \<Rightarrow> real" where
  "demo_clock t = t"

definition demo_succeed :: "real \<Rightarrow> (exn + nat) \<times> real" where
  "demo_succeed t = (Inr 7, t + 1)"

definition demo_fail :: "real \<Rightarrow> (exn + nat) \<times> real" where
  "demo_fail t = (Inl (Exn base_ConnectionError ''backend down''), t + 1)"

text \<open>
  Two operations whose state counts their invocations: one always raises the
  connectors' \<^verbatim>\<open>AuthenticationError\<close>, the other the builtin
  \<^verbatim>\<open>ConnectionError\<close>.
\<close>

definition demo_auth_failure :: "nat \<Rightarrow> (exn + unit) \<times> nat" where
  "demo_auth_failure k = (Inl (Exn base_AuthenticationError ''bad credentials''), Suc k)"

definition demo_conn_failure :: "nat \<Rightarrow> (exn + unit) \<times> nat" where
  "demo_conn_failure k = (Inl (Exn builtins_ConnectionError ''connection reset''), Suc k)"

text \<open>
  Answers of a backend to one invocation of a connector method: the handle is there,
  the local file has 5 bytes, the object has 5 bytes, every call returns, and an Azure
  copy is pending at the first two polls.  \<open>demo_always a\<close> gives the answers \<open>a\<close>
  to every invocation.
\<close>

definition demo_status :: "nat \<Rightarrow> exn + string" where
  "demo_status k = Inr (if k < 2 then ''pending'' else ''success'')"

definition demo_answers :: sdk_answers where
  "demo_answers =
     \<lparr>ans_auth = None, ans_start = 10, ans_end = 12, ans_local_exists = True,
      ans_local_size = 5, ans_mkdir = None, ans_size = Inr 5, ans_exists = Inr True,
      ans_gcp_size = Inr (Some 5), ans_transfer = None, ans_copy_status = demo_status\<rparr>"

definition demo_always :: "sdk_answers \<Rightarrow> nat \<Rightarrow> sdk_answers" where
  "demo_always a k = a"

text \<open>
  The answers when the object is missing (\<^verbatim>\<open>head_object\<close> raises a \<^verbatim>\<open>ClientError\<close>
  with code 404, \<^verbatim>\<open>exists()\<close> says no, the delete raises the SDK's not-found
  error), when access is denied, when the endpoint cannot be reached (botocore raises
  an error that is no \<^verbatim>\<open>ClientError\<close>), when the connection is reset during the call (the
  builtin \<^verbatim>\<open>ConnectionResetError\<close>), and when the lazy \<^verbatim>\<open>authenticate\<close> raises.
\<close>

definition demo_answers_missing :: sdk_answers where
  "demo_answers_missing =
     demo_answers
       \<lparr>ans_size := Inl (ClientError ''404'' ''Not Found''), ans_exists := Inr False,
        ans_transfer :=
          Some (Exn azure_ResourceNotFoundError ''The specified blob does not exist.'')\<rparr>"

definition demo_answers_forbidden :: sdk_answers where
  "demo_answers_forbidden =
     demo_answers
       \<lparr>ans_size := Inl (ClientError ''403'' ''Forbidden''),
        ans_exists := Inl (Exn google_Forbidden ''403 Forbidden'')\<rparr>"

definition demo_answers_endpoint_down :: sdk_answers where
  "demo_answers_endpoint_down =
     demo_answers
       \<lparr>ans_transfer :=
          Some (Exn botocore_BotoCoreError ''Could not connect to the endpoint URL'')\<rparr>"

definition demo_answers_connection_reset :: sdk_answers where
  "demo_answers_connection_reset =
     demo_answers
       \<lparr>ans_transfer :=
          Some (Exn builtins_ConnectionResetError ''Connection reset by peer'')\<rparr>"

definition demo_answers_no_credentials :: sdk_answers where
  "demo_answers_no_credentials =
     demo_answers
       \<lparr>ans_auth :=
          Some (Exn base_ConnectionError
                  ''Azure connection failed: Azure Blob Storage credentials not configured properly'')\<rparr>"

section \<open>Evaluation and helper lemmas\<close>

lemmas string_defs = lower_def lower_char_def lstrip_def strip_def isspace_def basename_def
  string_of_int_def py_int_def digits.simps fmt_def quoted_def

lemmas url_defs = parse_cloud_url_def urlparse_model_def split_scheme_def split_netloc_def
  cut_at_def is_alpha_def is_scheme_char_def c0_control_or_space_def unsafe_url_byte_def
  uses_params_def splitparams_def

lemmas demo_defs = demo_env_def demo_world_def demo_world_locked_def demo_authenticate_def
  demo_copy_file_def demo_download_file_def demo_upload_file_def object_key_def
  demo_config_def

lemmas orch_defs = copy_file_direct_def copy_via_temp_def copy_via_temp_try_def
  get_connector_def get_connector_by_name_def cleanup_temp_def unlink_def temp_file_path_def
  failed_def succeeded_def TransferResult_def cloud_url_def Let_def

lemmas cb_defs = call_def admit_def on_success_def on_failure_def Let_def

lemma isinstance_Exception [simp]: "isinstance e [builtins_Exception]"
  by (cases e; cases "class_of e") (auto simp: isinstance_def)

lemma isinstance_retriable:
  "isinstance e RETRIABLE_EXCEPTIONS \<longleftrightarrow>
     class_of e \<in> {builtins_ConnectionError, builtins_ConnectionResetError, builtins_TimeoutError}"
  by (cases "class_of e") (auto simp: isinstance_def RETRIABLE_EXCEPTIONS_def)

lemma isinstance_ClientError:
  "isinstance e [botocore_ClientError] \<longleftrightarrow> class_of e = botocore_ClientError"
  by (cases "class_of e") (auto simp: isinstance_def)

section \<open>The circuit breaker\<close>

lemma cb_inv_fresh: "cb_inv (CircuitBreaker threshold tmo)"
  by (simp add: cb_inv_def CircuitBreaker_def)

lemma cb_inv_call:
  assumes "cb_inv cb" and "call clock cb func w = (out, cb', w')"
  shows "cb_inv cb'"
  using assms
  by (auto simp: cb_defs cb_inv_def split: if_splits option.splits sum.splits prod.splits)

lemma call_closed:
  assumes "state cb = CLOSED"
  shows "call clock cb func w =
     (case func w of
        (Inr v, w1) \<Rightarrow> (Inr v, cb, w1)
      | (Inl e, w1) \<Rightarrow> (Inl e, on_failure (clock w1) cb, w1))"
  using assms by (simp add: call_def admit_def on_success_def split: prod.splits sum.splits)

lemma failures_Cons: "failures (r # rs) = (if isl r then 1 else 0) + failures rs"
  by (simp add: failures_def)

lemma call_seq_closed:
  assumes "state cb = CLOSED"
    and "call_seq clock cb fs w = (rs, cb1, w1)"
    and "failure_count cb + int (failures rs) < failure_threshold cb"
  shows "state cb1 = CLOSED \<and> failure_count cb1 = failure_count cb + int (failures rs)
         \<and> failure_threshold cb1 = failure_threshold cb"
  using assms
proof (induction fs arbitrary: cb w rs)
  case Nil
  then show ?case by (simp add: failures_def)
next
  case (Cons f fs)
  obtain r cb2 w2 where c: "call clock cb f w = (r, cb2, w2)"
    by (cases "call clock cb f w") auto
  obtain rs' where s: "call_seq clock cb2 fs w2 = (rs', cb1, w1)" and rs: "rs = r # rs'"
    using Cons.prems(2) c by (auto split: prod.splits)
  have step: "state cb2 = CLOSED
      \<and> failure_count cb2 = failure_count cb + (if isl r then 1 else 0)
      \<and> failure_threshold cb2 = failure_threshold cb"
    using c Cons.prems(1,3) rs
    by (auto simp: call_closed on_failure_def Let_def failures_Cons
        split: prod.splits sum.splits)
  have "failure_count cb2 + int (failures rs') < failure_threshold cb2"
    using step Cons.prems(3) rs by (simp add: failures_Cons split: if_splits)
  from Cons.IH[OF _ s this] step rs show ?case
    by (simp add: failures_Cons)
qed

text \<open>
  C5.  The breaker follows the state machine of the specification.  For a breaker
  that satisfies the invariant of reachable states (a fresh breaker does, and every
  call keeps it), a call of \<open>func\<close> that would answer \<open>r\<close> in world \<open>w\<close>:
  \<^item> in \<open>CLOSED\<close>, invokes \<open>func\<close>; a success leaves the breaker as it is; a failure
    adds one to the failure count, sets the failure time to the clock after the
    call, and moves the breaker to \<open>OPEN\<close> exactly when the incremented count
    reaches the threshold, leaving it \<open>CLOSED\<close> otherwise;
  \<^item> in \<open>OPEN\<close> with the timeout elapsed since the last failure, is admitted in
    \<open>HALF_OPEN\<close> and invokes \<open>func\<close>; a success moves the breaker to \<open>CLOSED\<close> with
    failure count 0 and changes nothing else; a failure adds one to the failure
    count, moves the breaker back to \<open>OPEN\<close> and sets the failure time to the clock
    after the call;
  \<^item> in \<open>OPEN\<close> with the timeout not elapsed, raises the builtin
    \<^verbatim>\<open>ConnectionError("Circuit breaker is OPEN")\<close> and leaves breaker and world
    untouched, whatever the callable is: the callable is not invoked.

  The breaker after the call is given in full in each case, so that threshold and
  timeout are seen to stay as they are.
\<close>

theorem circuit_breaker_state_machine:
  fixes func :: "'w \<Rightarrow> (exn + 'a) \<times> 'w"
  assumes inv: "cb_inv cb"
    and f: "func w = (r, w1)"
    and c: "call clock cb func w = (out, cb', w')"
  shows "cb_inv (CircuitBreaker threshold tmo) \<and> cb_inv cb'
    \<and> (state cb = CLOSED \<longrightarrow>
          out = r \<and> w' = w1 \<and> (\<not> isl r \<longrightarrow> cb' = cb) \<and>
          (isl r \<longrightarrow> (state cb' = OPEN \<longleftrightarrow> failure_threshold cb \<le> failure_count cb + 1)
                   \<and> (state cb' = CLOSED \<longleftrightarrow> failure_count cb + 1 < failure_threshold cb)
                   \<and> cb' = cb\<lparr>failure_count := failure_count cb + 1,
                               last_failure_time := Some (clock w1),
                               state := (if failure_threshold cb \<le> failure_count cb + 1
                                         then OPEN else CLOSED)\<rparr>))
    \<and> (state cb = OPEN \<and> timeout_elapsed (clock w) cb \<longrightarrow>
          admit (clock w) cb = Inr (cb\<lparr>state := HALF_OPEN\<rparr>) \<and> out = r \<and> w' = w1 \<and>
          (\<not> isl r \<longrightarrow> state cb' = CLOSED \<and> failure_count cb' = 0
                     \<and> cb' = cb\<lparr>state := CLOSED, failure_count := 0\<rparr>) \<and>
          (isl r \<longrightarrow> state cb' = OPEN \<and> last_failure_time cb' = Some (clock w1)
                   \<and> cb' = cb\<lparr>failure_count := failure_count cb + 1,
                               last_failure_time := Some (clock w1), state := OPEN\<rparr>))
    \<and> (state cb = OPEN \<and> \<not> timeout_elapsed (clock w) cb \<longrightarrow>
          (\<forall>g :: 'w \<Rightarrow> (exn + 'a) \<times> 'w.
             call clock cb g w
               = (Inl (Exn builtins_ConnectionError ''Circuit breaker is OPEN''), cb, w)))"
proof -
  have fresh: "cb_inv (CircuitBreaker threshold tmo)" by (rule cb_inv_fresh)
  have kept: "cb_inv cb'" using inv c by (rule cb_inv_call)
  have closed: "state cb = CLOSED \<longrightarrow>
          out = r \<and> w' = w1 \<and> (\<not> isl r \<longrightarrow> cb' = cb) \<and>
          (isl r \<longrightarrow> (state cb' = OPEN \<longleftrightarrow> failure_threshold cb \<le> failure_count cb + 1)
                   \<and> (state cb' = CLOSED \<longleftrightarrow> failure_count cb + 1 < failure_threshold cb)
                   \<and> cb' = cb\<lparr>failure_count := failure_count cb + 1,
                               last_failure_time := Some (clock w1),
                               state := (if failure_threshold cb \<le> failure_count cb + 1
                                         then OPEN else CLOSED)\<rparr>)"
    using f c by (cases r) (auto simp: cb_defs split: if_splits)
  have half: "state cb = OPEN \<and> timeout_elapsed (clock w) cb \<longrightarrow>
          admit (clock w) cb = Inr (cb\<lparr>state := HALF_OPEN\<rparr>) \<and> out = r \<and> w' = w1 \<and>
          (\<not> isl r \<longrightarrow> state cb' = CLOSED \<and> failure_count cb' = 0
                     \<and> cb' = cb\<lparr>state := CLOSED, failure_count := 0\<rparr>) \<and>
          (isl r \<longrightarrow> state cb' = OPEN \<and> last_failure_time cb' = Some (clock w1)
                   \<and> cb' = cb\<lparr>failure_count := failure_count cb + 1,
                               last_failure_time := Some (clock w1), state := OPEN\<rparr>)"
    using f c inv
    by (cases r) (auto simp: cb_defs cb_inv_def timeout_elapsed_def split: option.splits)
  have rejected: "state cb = OPEN \<and> \<not> timeout_elapsed (clock w) cb \<longrightarrow>
          (\<forall>g :: 'w \<Rightarrow> (exn + 'a) \<times> 'w.
             call clock cb g w
               = (Inl (Exn builtins_ConnectionError ''Circuit breaker is OPEN''), cb, w))"
    using inv
    by (auto simp: call_def admit_def cb_inv_def timeout_elapsed_def split: option.splits)
  from fresh kept closed half rejected show ?thesis by blast
qed

text \<open>
  The theorem at seven calls on a world that is the clock.  A fresh breaker with
  threshold 3 counts a first and a second failure and stays \<open>CLOSED\<close>, and the third
  failure opens it.  With threshold 2: a second failure in \<open>CLOSED\<close> opens the
  breaker; in \<open>OPEN\<close> since time 100, a call at 161 that succeeds closes it and resets
  the count; a call at 161 that fails reopens it with count 3 and failure time 162; a
  call at 130 is rejected, and the rejected callable would have moved the clock.
\<close>

theorem circuit_breaker_state_machine_witness:
  "fst (snd (call demo_clock (CircuitBreaker 3 60) demo_fail 0)) = demo_breaker3 CLOSED 1 (Some 1)
   \<and> fst (snd (call demo_clock (demo_breaker3 CLOSED 1 (Some 1)) demo_fail 1))
       = demo_breaker3 CLOSED 2 (Some 2)
   \<and> fst (snd (call demo_clock (demo_breaker3 CLOSED 2 (Some 2)) demo_fail 2))
       = demo_breaker3 OPEN 3 (Some 3)
   \<and> fst (snd (call_seq demo_clock (CircuitBreaker 3 60) [demo_fail, demo_fail, demo_fail] 0))
       = demo_breaker3 OPEN 3 (Some 3)
   \<and> fst (snd (call demo_clock (demo_breaker CLOSED 1 None) demo_fail 10))
       = demo_breaker OPEN 2 (Some 11)
   \<and> fst (snd (call demo_clock (demo_breaker OPEN 2 (Some 100)) demo_succeed 161))
       = demo_breaker CLOSED 0 (Some 100)
   \<and> fst (snd (call demo_clock (demo_breaker OPEN 2 (Some 100)) demo_fail 161))
       = demo_breaker OPEN 3 (Some 162)
   \<and> call demo_clock (demo_breaker OPEN 2 (Some 100)) demo_succeed 130
       = (Inl (Exn builtins_ConnectionError ''Circuit breaker is OPEN''),
          demo_breaker OPEN 2 (Some 100), 130)"
proof -
  let ?clock = demo_clock
  let ?open = "demo_breaker OPEN 2 (Some 100)"
  let ?e = "Inl (Exn base_ConnectionError ''backend down'') :: exn + nat"
  have fails: "\<And>t. demo_fail t = (?e, t + 1)" and succeeds: "\<And>t. demo_succeed t = (Inr 7, t + 1)"
    by (simp_all add: demo_fail_def demo_succeed_def)
  have split: "\<And>cb g t. call ?clock cb g t
      = (fst (call ?clock cb g t), fst (snd (call ?clock cb g t)),
         snd (snd (call ?clock cb g t)))"
    by simp
  have fresh: "CircuitBreaker 3 60 = demo_breaker3 CLOSED 0 None"
    by (simp add: CircuitBreaker_def demo_breaker3_def)
  have i3: "\<And>n t. cb_inv (demo_breaker3 CLOSED n t)"
    and i1: "cb_inv (demo_breaker CLOSED 1 None)" and i2: "cb_inv ?open"
    by (simp_all add: cb_inv_def demo_breaker_def demo_breaker3_def)
  have a1: "fst (snd (call ?clock (demo_breaker3 CLOSED 0 None) demo_fail 0))
      = demo_breaker3 CLOSED 1 (Some 1)"
    using circuit_breaker_state_machine [where cb = "demo_breaker3 CLOSED 0 None" and func = demo_fail
        and w = 0 and clock = demo_clock and threshold = 3 and tmo = 60,
        OF i3 fails split]
    by (simp add: demo_breaker3_def demo_clock_def)
  have a2: "fst (snd (call ?clock (demo_breaker3 CLOSED 1 (Some 1)) demo_fail 1))
      = demo_breaker3 CLOSED 2 (Some 2)"
    using circuit_breaker_state_machine [where cb = "demo_breaker3 CLOSED 1 (Some 1)" and func = demo_fail
        and w = 1 and clock = demo_clock and threshold = 3 and tmo = 60,
        OF i3 fails split]
    by (simp add: demo_breaker3_def demo_clock_def)
  have a3: "fst (snd (call ?clock (demo_breaker3 CLOSED 2 (Some 2)) demo_fail 2))
      = demo_breaker3 OPEN 3 (Some 3)"
    using circuit_breaker_state_machine [where cb = "demo_breaker3 CLOSED 2 (Some 2)" and func = demo_fail
        and w = 2 and clock = demo_clock and threshold = 3 and tmo = 60,
        OF i3 fails split]
    by (simp add: demo_breaker3_def demo_clock_def)
  have w: "\<And>n t t'. snd (snd (call ?clock (demo_breaker3 CLOSED n t) demo_fail t')) = t' + 1"
    by (simp add: call_def admit_def demo_breaker3_def demo_fail_def)
  have seq: "fst (snd (call_seq ?clock (demo_breaker3 CLOSED 0 None)
                         [demo_fail, demo_fail, demo_fail] 0))
      = demo_breaker3 OPEN 3 (Some 3)"
    using a1 a2 a3 w [of 0 None 0] w [of 1 "Some 1" 1] w [of 2 "Some 2" 2]
    by (simp add: split_beta)
  have b1: "fst (snd (call ?clock (demo_breaker CLOSED 1 None) demo_fail 10))
      = demo_breaker OPEN 2 (Some 11)"
    using circuit_breaker_state_machine [where cb = "demo_breaker CLOSED 1 None" and func = demo_fail
        and w = 10 and clock = demo_clock and threshold = 3 and tmo = 60,
        OF i1 fails split]
    by (simp add: demo_breaker_def demo_clock_def)
  have e2: "timeout_elapsed (?clock 161) ?open" and e4: "\<not> timeout_elapsed (?clock 130) ?open"
    by (simp_all add: timeout_elapsed_def demo_breaker_def demo_clock_def)
  have s2: "state ?open = OPEN" by (simp add: demo_breaker_def)
  have b2: "fst (snd (call ?clock ?open demo_succeed 161)) = demo_breaker CLOSED 0 (Some 100)"
    using circuit_breaker_state_machine [where cb = "demo_breaker OPEN 2 (Some 100)" and func = demo_succeed
        and w = 161 and clock = demo_clock and threshold = 3 and tmo = 60,
        OF i2 succeeds split] s2 e2
    by (simp add: demo_breaker_def)
  have b3: "fst (snd (call ?clock ?open demo_fail 161)) = demo_breaker OPEN 3 (Some 162)"
    using circuit_breaker_state_machine [where cb = "demo_breaker OPEN 2 (Some 100)" and func = demo_fail
        and w = 161 and clock = demo_clock and threshold = 3 and tmo = 60,
        OF i2 fails split] s2 e2
    by (simp add: demo_breaker_def demo_clock_def)
  from circuit_breaker_state_machine [where cb = "demo_breaker OPEN 2 (Some 100)" and func = demo_succeed
        and w = 130 and clock = demo_clock and threshold = 3 and tmo = 60,
        OF i2 succeeds split] s2 e4
  have b4: "call ?clock ?open demo_succeed 130
      = (Inl (Exn builtins_ConnectionError ''Circuit breaker is OPEN''), ?open, 130)" by blast
  from a1 a2 a3 seq b1 b2 b3 b4 show ?thesis by (simp add: fresh)
qed

text \<open>
  C10.  A successful call in \<open>CLOSED\<close> does not reset the failure count.  Starting
  from a \<open>CLOSED\<close> breaker, run any sequence of calls, successes and failures in any
  order, whose failures leave the count below the threshold: the breaker is still
  \<open>CLOSED\<close> and its count is the old count plus the number of failures.  A next call
  that succeeds leaves the breaker as it is; a next call that fails and brings the
  count to the threshold opens it.  In any state, a call lowers the failure count
  only when it is a success outside \<open>CLOSED\<close> (the \<open>HALF_OPEN\<close> attempt), and then to 0.
\<close>

theorem closed_success_keeps_failure_count:
  fixes func :: "'w \<Rightarrow> (exn + 'a) \<times> 'w"
  assumes closed: "state cb = CLOSED"
    and s: "call_seq clock cb fs w = (rs, cb1, w1)"
    and below: "failure_count cb + int (failures rs) < failure_threshold cb"
    and f: "func w1 = (r, w2)"
    and c: "call clock cb1 func w1 = (out, cb2, w3)"
  shows "state cb1 = CLOSED \<and> failure_count cb1 = failure_count cb + int (failures rs)
    \<and> (\<not> isl r \<longrightarrow> cb2 = cb1)
    \<and> (isl r \<and> failure_threshold cb \<le> failure_count cb + int (failures rs) + 1
          \<longrightarrow> state cb2 = OPEN)
    \<and> (\<forall>cb0 (g :: 'w \<Rightarrow> (exn + 'a) \<times> 'w) v out0 cb0' v'.
          call clock cb0 g v = (out0, cb0', v') \<and> failure_count cb0' < failure_count cb0
            \<longrightarrow> state cb0 \<noteq> CLOSED \<and> \<not> isl out0 \<and> failure_count cb0' = 0)"
proof -
  have a: "state cb1 = CLOSED \<and> failure_count cb1 = failure_count cb + int (failures rs)
         \<and> failure_threshold cb1 = failure_threshold cb"
    using closed s below by (rule call_seq_closed)
  have b: "\<not> isl r \<longrightarrow> cb2 = cb1"
    using a f c by (cases r) (auto simp: call_closed)
  have d: "isl r \<and> failure_threshold cb \<le> failure_count cb + int (failures rs) + 1
      \<longrightarrow> state cb2 = OPEN"
    using a f c by (cases r) (auto simp: call_closed on_failure_def Let_def)
  have e: "\<forall>cb0 (g :: 'w \<Rightarrow> (exn + 'a) \<times> 'w) v out0 cb0' v'.
          call clock cb0 g v = (out0, cb0', v') \<and> failure_count cb0' < failure_count cb0
            \<longrightarrow> state cb0 \<noteq> CLOSED \<and> \<not> isl out0 \<and> failure_count cb0' = 0"
    by (auto simp: cb_defs split: if_splits option.splits sum.splits prod.splits)
  from a b d e show ?thesis by blast
qed

text \<open>
  The theorem on a fresh breaker with threshold 3: after failure, success, failure,
  success the count is 2 and the breaker is \<open>CLOSED\<close>; one more failure opens it.
\<close>

theorem closed_success_keeps_failure_count_witness:
  "fst (snd (call_seq demo_clock (CircuitBreaker 3 60)
               [demo_fail, demo_succeed, demo_fail, demo_succeed] 0))
     = demo_breaker3 CLOSED 2 (Some 3)
   \<and> state (fst (snd (call demo_clock (demo_breaker3 CLOSED 2 (Some 3)) demo_fail 4))) = OPEN"
proof -
  let ?clock = demo_clock
  let ?fs = "[demo_fail, demo_succeed, demo_fail, demo_succeed]"
  let ?e = "Inl (Exn base_ConnectionError ''backend down'') :: exn + nat"
  have closed: "state (CircuitBreaker 3 60) = CLOSED" by (simp add: CircuitBreaker_def)
  have s: "call_seq ?clock (CircuitBreaker 3 60) ?fs 0
      = ([?e, Inr 7, ?e, Inr 7], demo_breaker3 CLOSED 2 (Some 3), 4)"
    by (simp add: cb_defs CircuitBreaker_def demo_breaker3_def demo_fail_def demo_succeed_def demo_clock_def)
  have below: "failure_count (CircuitBreaker 3 60) + int (failures [?e, Inr 7, ?e, Inr 7])
      < failure_threshold (CircuitBreaker 3 60)"
    by (simp add: CircuitBreaker_def failures_def)
  have f: "demo_fail 4 = (?e, 5)" by (simp add: demo_fail_def)
  have c: "call ?clock (demo_breaker3 CLOSED 2 (Some 3)) demo_fail 4
      = (?e, demo_breaker3 OPEN 3 (Some 5), 5)"
    by (simp add: cb_defs demo_breaker3_def demo_fail_def demo_clock_def)
  have reach: "failure_threshold (CircuitBreaker 3 60)
      \<le> failure_count (CircuitBreaker 3 60) + int (failures [?e, Inr 7, ?e, Inr 7]) + 1"
    by (simp add: CircuitBreaker_def failures_def)
  from closed_success_keeps_failure_count [OF closed s below f c] reach
  have "state (demo_breaker3 OPEN 3 (Some 5)) = OPEN" by simp
  with s c show ?thesis by simp
qed

section \<open>The retry wrappers\<close>

lemma after_calls_0 [simp]: "after_calls func 0 s = s"
  by (simp add: after_calls_def)

lemma after_calls_Suc: "after_calls func (Suc k) s = after_calls func k (snd (func s))"
  unfolding after_calls_def by (induction k) simp_all

lemma after_calls_Suc': "after_calls func (Suc k) s = snd (func (after_calls func k s))"
  by (simp add: after_calls_def)

lemma times_pow2_ok:
  assumes "0 \<le> num_val delay" and "case delay of PyInt i \<Rightarrow> True | PyFloat x \<Rightarrow> k < 1024"
  shows "\<exists>x. times_pow2 delay k = Inr x \<and> 0 \<le> x"
  using assms by (cases delay) (simp_all add: times_pow2_def)

lemma retry_loop_all_fail:
  assumes "a \<le> m" and "0 \<le> num_val delay"
    and "case delay of PyInt i \<Rightarrow> True | PyFloat x \<Rightarrow> m \<le> 1025"
    and "\<forall>k < Suc (nat (m - a)). isl (fst (operation (after_calls operation k s)))"
  shows "fst (retry_loop operation m delay [a..m] lastexc s slept)
           = fst (operation (after_calls operation (nat (m - a)) s))
       \<and> fst (snd (retry_loop operation m delay [a..m] lastexc s slept))
           = after_calls operation (Suc (nat (m - a))) s"
  using assms
proof (induction "nat (m - a)" arbitrary: a s lastexc slept)
  case 0
  then have am: "a = m" by simp
  from "0.prems"(4) have "isl (fst (operation s))" by auto
  then obtain e s' where o: "operation s = (Inl e, s')"
    by (cases "operation s"; cases "fst (operation s)") auto
  show ?case using am o by (simp add: after_calls_Suc')
next
  case (Suc n)
  then have lt: "a < m" and n: "n = nat (m - (a + 1))" by auto
  from Suc.prems(4) have "isl (fst (operation (after_calls operation 0 s)))" by blast
  then obtain e s' where o: "operation s = (Inl e, s')"
    by (cases "operation s"; cases "fst (operation s)") auto
  have "case delay of PyInt i \<Rightarrow> True | PyFloat x \<Rightarrow> nat (a - 1) < 1024"
    using Suc.prems(3) lt by (cases delay) auto
  with Suc.prems(2) obtain x where x: "times_pow2 delay (nat (a - 1)) = Inr x" "0 \<le> x"
    using times_pow2_ok by blast
  then have nonneg: "\<not> min x 60 < 0" by simp
  have rest: "\<forall>k < Suc (nat (m - (a + 1))). isl (fst (operation (after_calls operation k s')))"
  proof (intro allI impI)
    fix k assume "k < Suc (nat (m - (a + 1)))"
    then have "Suc k < Suc (nat (m - a))" using lt by auto
    with Suc.prems(4) have "isl (fst (operation (after_calls operation (Suc k) s)))" by blast
    then show "isl (fst (operation (after_calls operation k s')))"
      using o by (simp add: after_calls_Suc)
  qed
  have le: "a + 1 \<le> m" using lt by simp
  note IH = Suc.hyps(1) [OF n le Suc.prems(2) Suc.prems(3) rest]
  have unfold: "[a..m] = a # [a + 1..m]" using lt by (simp add: upto_rec1)
  have idx: "nat (m - a) = Suc (nat (m - (a + 1)))" using lt by auto
  show ?case
    using lt o x(1) nonneg IH [of "Some e" "slept @ [min x 60]"]
    by (simp add: unfold idx after_calls_Suc [of operation _ s])
qed

lemma tenacity_not_retriable:
  assumes "func s = (Inl e, s')" and "\<not> isinstance e exceptions"
  shows "tenacity_retry stop multiplier exceptions bs func n s slept = (Inl e, s', slept)"
  using assms by (simp add: tenacity_retry.simps)

lemma tenacity_returns:
  assumes "func s = (Inr v, s')"
  shows "tenacity_retry stop multiplier exceptions bs func n s slept = (Inr v, s', slept)"
  using assms by (simp add: tenacity_retry.simps)

lemma tenacity_callback_raises:
  assumes "func s = (Inl e, s')" and "isinstance e exceptions" and "n < stop"
  shows "tenacity_retry stop multiplier exceptions (Some x) func n s slept = (Inl x, s', slept)"
  using assms by (subst tenacity_retry.simps) simp


lemma tenacity_exhausted:
  assumes "func s = (Inl e, s')" and "isinstance e exceptions" and "stop \<le> n"
  shows "tenacity_retry stop multiplier exceptions bs func n s slept
     = (Inl (RetryError e), s', slept)"
  using assms by (subst tenacity_retry.simps) simp


text \<open>
  C4, as the code has it.  \<^verbatim>\<open>with_retry\<close> with the default exception classes
  treats as retriable only an error of the builtin \<^verbatim>\<open>ConnectionError\<close> or
  \<^verbatim>\<open>TimeoutError\<close> kind (the classes themselves and the builtin subclass
  \<^verbatim>\<open>ConnectionResetError\<close>).  An error of any other kind, such as the connectors'
  \<^verbatim>\<open>AuthenticationError\<close>, \<^verbatim>\<open>FileNotFoundError\<close> or their own
  \<^verbatim>\<open>ConnectionError\<close>, is raised as it is after the first invocation, without a
  sleep.  After a retriable error with attempts left, the \<^verbatim>\<open>before_sleep\<close>
  callback raises, and its exception leaves the wrapper: the function has been
  invoked once and nothing has slept.  After a retriable error with no attempt left,
  which the first invocation reaches when \<open>m\<close> is at most 1, a \<^verbatim>\<open>RetryError\<close>
  that wraps the error is raised.  \<^verbatim>\<open>retry_operation\<close> has no filter: when each
  of its \<open>m\<close> attempts fails, with errors of whatever kind, the operation has been
  invoked \<open>m\<close> times and the error of the last attempt itself is raised (for \<open>m\<close> of
  at least 1, a delay that is not negative, and, when the delay is a float, \<open>m\<close> of
  at most 1025, so that the product with the power of two does not overflow).  Here
  \<open>m\<close> is \<^verbatim>\<open>max_attempts or config.max_retries\<close> and \<open>d\<close> is
  \<^verbatim>\<open>delay or config.retry_delay\<close>.
\<close>

theorem retry_wrappers_behaviour:
  fixes func :: "'s \<Rightarrow> (exn + 'a) \<times> 's"
  assumes m: "m = or_default max_attempts (max_retries cfg)"
    and d: "d = or_number delay (PyInt (retry_delay cfg))"
    and first: "func s = (Inl e, s')"
  shows "(isinstance e RETRIABLE_EXCEPTIONS \<longleftrightarrow>
            class_of e \<in> {builtins_ConnectionError, builtins_ConnectionResetError,
                          builtins_TimeoutError})
    \<and> (\<not> isinstance e RETRIABLE_EXCEPTIONS \<longrightarrow>
          with_retry lg cfg max_attempts delay RETRIABLE_EXCEPTIONS func s = (Inl e, s', []))
    \<and> (isinstance e RETRIABLE_EXCEPTIONS \<and> 1 < m \<longrightarrow>
          with_retry lg cfg max_attempts delay RETRIABLE_EXCEPTIONS func s
            = (Inl (before_sleep_log lg), s', []))
    \<and> (isinstance e RETRIABLE_EXCEPTIONS \<and> m \<le> 1 \<longrightarrow>
          with_retry lg cfg max_attempts delay RETRIABLE_EXCEPTIONS func s
            = (Inl (RetryError e), s', []))
    \<and> class_of (before_sleep_log lg) \<in> {builtins_TypeError, builtins_KeyError}
    \<and> (1 \<le> m \<and> 0 \<le> num_val d \<and> (case d of PyInt i \<Rightarrow> True | PyFloat x \<Rightarrow> m \<le> 1025)
        \<and> (\<forall>k < nat m. isl (fst (func (after_calls func k s)))) \<longrightarrow>
          fst (retry_operation cfg func max_attempts delay s)
            = fst (func (after_calls func (nat m - 1) s))
          \<and> fst (snd (retry_operation cfg func max_attempts delay s))
            = after_calls func (nat m) s)"
proof -
  have kinds: "isinstance e RETRIABLE_EXCEPTIONS \<longleftrightarrow>
            class_of e \<in> {builtins_ConnectionError, builtins_ConnectionResetError,
                          builtins_TimeoutError}"
    by (rule isinstance_retriable)
  have once: "\<not> isinstance e RETRIABLE_EXCEPTIONS \<longrightarrow>
          with_retry lg cfg max_attempts delay RETRIABLE_EXCEPTIONS func s = (Inl e, s', [])"
    using first by (simp add: with_retry_def Let_def tenacity_not_retriable)
  have callback: "isinstance e RETRIABLE_EXCEPTIONS \<and> 1 < m \<longrightarrow>
          with_retry lg cfg max_attempts delay RETRIABLE_EXCEPTIONS func s
            = (Inl (before_sleep_log lg), s', [])"
    using first m by (simp add: with_retry_def Let_def tenacity_callback_raises)
  have exhausted: "isinstance e RETRIABLE_EXCEPTIONS \<and> m \<le> 1 \<longrightarrow>
          with_retry lg cfg max_attempts delay RETRIABLE_EXCEPTIONS func s
            = (Inl (RetryError e), s', [])"
    using first m by (simp add: with_retry_def Let_def tenacity_exhausted)
  have cls: "class_of (before_sleep_log lg) \<in> {builtins_TypeError, builtins_KeyError}"
    by (cases lg) (simp_all add: before_sleep_log_def)
  have all: "1 \<le> m \<and> 0 \<le> num_val d \<and> (case d of PyInt i \<Rightarrow> True | PyFloat x \<Rightarrow> m \<le> 1025)
        \<and> (\<forall>k < nat m. isl (fst (func (after_calls func k s)))) \<longrightarrow>
          fst (retry_operation cfg func max_attempts delay s)
            = fst (func (after_calls func (nat m - 1) s))
          \<and> fst (snd (retry_operation cfg func max_attempts delay s))
            = after_calls func (nat m) s"
  proof
    assume h: "1 \<le> m \<and> 0 \<le> num_val d
        \<and> (case d of PyInt i \<Rightarrow> True | PyFloat x \<Rightarrow> m \<le> 1025)
        \<and> (\<forall>k < nat m. isl (fst (func (after_calls func k s))))"
    then have idx: "Suc (nat (m - 1)) = nat m" by auto
    from h have fails: "\<forall>k < Suc (nat (m - 1)). isl (fst (func (after_calls func k s)))"
      by (simp only: idx) simp
    from h have h1: "1 \<le> m" and h2: "0 \<le> num_val d"
      and h3: "case d of PyInt i \<Rightarrow> True | PyFloat x \<Rightarrow> m \<le> 1025"
      by simp_all
    from retry_loop_all_fail [of 1 m d func s None "[]", OF h1 h2 h3 fails]
    show "fst (retry_operation cfg func max_attempts delay s)
            = fst (func (after_calls func (nat m - 1) s))
          \<and> fst (snd (retry_operation cfg func max_attempts delay s))
            = after_calls func (nat m) s"
      using m d idx by (simp add: retry_operation_def Let_def nat_diff_distrib)
  qed
  from kinds once callback exhausted cls all show ?thesis by blast
qed

text \<open>
  The theorem at two operations under the default configuration (three attempts,
  delay 2).  The first raises \<^verbatim>\<open>AuthenticationError\<close> at every invocation:
  \<^verbatim>\<open>with_retry\<close> raises it after one invocation, \<^verbatim>\<open>retry_operation\<close> after
  three.  The second raises the builtin \<^verbatim>\<open>ConnectionError\<close>: with three
  attempts allowed \<^verbatim>\<open>with_retry\<close> raises the exception of the logging callback
  after one invocation, a \<^verbatim>\<open>TypeError\<close> under structlog's defaults; with one
  attempt allowed it raises a \<^verbatim>\<open>RetryError\<close>.
\<close>

theorem retry_wrappers_behaviour_witness:
  "with_retry structlog_defaults demo_config None None RETRIABLE_EXCEPTIONS demo_auth_failure 0
     = (Inl (Exn base_AuthenticationError ''bad credentials''), 1, [])
   \<and> fst (retry_operation demo_config demo_auth_failure None None 0)
       = Inl (Exn base_AuthenticationError ''bad credentials'')
   \<and> fst (snd (retry_operation demo_config demo_auth_failure None None 0)) = 3
   \<and> with_retry structlog_defaults demo_config None None RETRIABLE_EXCEPTIONS
       demo_conn_failure 0
       = (Inl (before_sleep_log structlog_defaults), 1, [])
   \<and> class_of (before_sleep_log structlog_defaults) = builtins_TypeError
   \<and> with_retry structlog_defaults demo_config (Some 1) None RETRIABLE_EXCEPTIONS
       demo_conn_failure 0
       = (Inl (RetryError (Exn builtins_ConnectionError ''connection reset'')), 1, [])"
proof -
  have m: "(3::int) = or_default None (max_retries demo_config)"
    and m1: "(1::int) = or_default (Some 1) (max_retries demo_config)"
    and d: "PyInt 2 = or_number None (PyInt (retry_delay demo_config))"
    by (simp_all add: or_default_def or_number_def demo_config_def)
  have f1: "demo_auth_failure 0 = (Inl (Exn base_AuthenticationError ''bad credentials''), 1)"
    and f2: "demo_conn_failure 0 = (Inl (Exn builtins_ConnectionError ''connection reset''), 1)"
    by (simp_all add: demo_auth_failure_def demo_conn_failure_def)
  have n1: "\<not> isinstance (Exn base_AuthenticationError ''bad credentials'') RETRIABLE_EXCEPTIONS"
    and n2: "isinstance (Exn builtins_ConnectionError ''connection reset'') RETRIABLE_EXCEPTIONS"
    by (simp_all add: isinstance_def RETRIABLE_EXCEPTIONS_def)
  have after: "\<And>k. after_calls demo_auth_failure k 0 = k"
  proof -
    fix k show "after_calls demo_auth_failure k 0 = k"
      by (induction k) (simp_all add: after_calls_Suc' demo_auth_failure_def)
  qed
  have fails: "\<forall>k < nat 3. isl (fst (demo_auth_failure (after_calls demo_auth_failure k 0)))"
    by (simp add: demo_auth_failure_def)
  from retry_wrappers_behaviour [where func = demo_auth_failure and s = 0 and m = 3
      and d = "PyInt 2" and cfg = demo_config and max_attempts = None and delay = None
      and lg = structlog_defaults, OF m d f1] n1 fails after
  have a: "with_retry structlog_defaults demo_config None None RETRIABLE_EXCEPTIONS
             demo_auth_failure 0
     = (Inl (Exn base_AuthenticationError ''bad credentials''), 1, [])
   \<and> fst (retry_operation demo_config demo_auth_failure None None 0)
       = Inl (Exn base_AuthenticationError ''bad credentials'')
   \<and> fst (snd (retry_operation demo_config demo_auth_failure None None 0)) = 3"
    by (simp add: demo_auth_failure_def)
  from retry_wrappers_behaviour [where func = demo_conn_failure and s = 0 and m = 3
      and d = "PyInt 2" and cfg = demo_config and max_attempts = None and delay = None
      and lg = structlog_defaults, OF m d f2] n2
  have b: "with_retry structlog_defaults demo_config None None RETRIABLE_EXCEPTIONS
             demo_conn_failure 0
       = (Inl (before_sleep_log structlog_defaults), 1, [])"
    by simp
  have c: "class_of (before_sleep_log structlog_defaults) = builtins_TypeError"
    by (simp add: before_sleep_log_def)
  from retry_wrappers_behaviour [where func = demo_conn_failure and s = 0 and m = 1
      and d = "PyInt 2" and cfg = demo_config and max_attempts = "Some 1" and delay = None
      and lg = structlog_defaults, OF m1 d f2] n2
  have e: "with_retry structlog_defaults demo_config (Some 1) None RETRIABLE_EXCEPTIONS
             demo_conn_failure 0
       = (Inl (RetryError (Exn builtins_ConnectionError ''connection reset'')), 1, [])"
    by simp
  from a b c e show ?thesis by simp
qed

text \<open>
  C4 as the specification states it fails on both wrappers.  An operation that
  always raises \<^verbatim>\<open>AuthenticationError\<close> is invoked three times by
  \<^verbatim>\<open>retry_operation\<close>, which sleeps 2 and 4 seconds in between; and when an
  operation raises the builtin \<^verbatim>\<open>ConnectionError\<close> at the one attempt that
  \<^verbatim>\<open>with_retry(max_attempts=1)\<close> allows, the wrapper raises a \<^verbatim>\<open>RetryError\<close>
  around the error, not the error.
\<close>

theorem retry_claim_counterexample:
  "retry_operation demo_config demo_auth_failure None None 0
     = (Inl (Exn base_AuthenticationError ''bad credentials''), 3, [2, 4])
   \<and> with_retry structlog_defaults demo_config (Some 1) None RETRIABLE_EXCEPTIONS
       demo_conn_failure 0
       = (Inl (RetryError (Exn builtins_ConnectionError ''connection reset'')), 1, [])"
proof -
  have up: "[1..3] = [1, 2, 3::int]" by (simp add: upto_rec1)
  have a: "retry_operation demo_config demo_auth_failure None None 0
     = (Inl (Exn base_AuthenticationError ''bad credentials''), 3, [2, 4])"
    by (simp add: retry_operation_def or_default_def or_number_def times_pow2_def
        demo_config_def up demo_auth_failure_def Let_def numeral_eq_Suc)
  have r: "isinstance (Exn builtins_ConnectionError ''connection reset'') RETRIABLE_EXCEPTIONS"
    by (simp add: isinstance_def RETRIABLE_EXCEPTIONS_def)
  have b: "with_retry structlog_defaults demo_config (Some 1) None RETRIABLE_EXCEPTIONS
             demo_conn_failure 0
       = (Inl (RetryError (Exn builtins_ConnectionError ''connection reset'')), 1, [])"
    using r
    by (simp add: with_retry_def or_default_def or_number_def demo_config_def Let_def
        demo_conn_failure_def
        tenacity_exhausted [where e = "Exn builtins_ConnectionError ''connection reset''"])
  from a b show ?thesis by simp
qed
section \<open>The URL resolver\<close>

lemma lstrip_replicate: "\<exists>n. s = replicate n c @ lstrip c s"
proof (induction s)
  case Nil
  show ?case by (simp add: lstrip_def)
next
  case (Cons x s)
  show ?case
  proof (cases "x = c")
    case True
    from Cons obtain n where "s = replicate n c @ lstrip c s" by blast
    then have "x # s = replicate (Suc n) c @ lstrip c (x # s)"
      using True by (simp add: lstrip_def)
    then show ?thesis by blast
  next
    case False
    then have "x # s = replicate 0 c @ lstrip c (x # s)" by (simp add: lstrip_def)
    then show ?thesis by blast
  qed
qed

lemma lstrip_no_leading: "lstrip c s = [] \<or> hd (lstrip c s) \<noteq> c"
  using hd_dropWhile [of "\<lambda>x. x = c" s] by (auto simp: lstrip_def)

text \<open>
  C7.  Whatever \<^verbatim>\<open>urlparse\<close> makes of the URL, \<^verbatim>\<open>_parse_cloud_url\<close> decides on
  the lower-cased scheme alone: \<open>s3\<close> is \<open>aws\<close>, \<open>azure\<close> is \<open>azure\<close>, and both
  \<open>gcs\<close> and \<open>gs\<close> are \<open>gcp\<close>; the container is the netloc and the path is the path
  component without its leading slashes (nothing but leading slashes is removed, and
  an empty path stays empty); every other scheme raises \<^verbatim>\<open>ValueError\<close>, and an
  exception of \<^verbatim>\<open>urlparse\<close> is passed on.  Two parses that differ only in the case
  of the scheme agree.  The function takes the URL and nothing else, so two calls on
  the same URL agree.
\<close>

theorem parse_cloud_url_contract:
  assumes p: "up url = Inr p"
  shows "(lower (url_scheme p) = ''s3'' \<longrightarrow>
            parse_cloud_url up url
              = Inr (''aws'', url_netloc p, lstrip CHR ''/'' (url_path p)))
    \<and> (lower (url_scheme p) = ''azure'' \<longrightarrow>
            parse_cloud_url up url
              = Inr (''azure'', url_netloc p, lstrip CHR ''/'' (url_path p)))
    \<and> (lower (url_scheme p) \<in> {''gcs'', ''gs''} \<longrightarrow>
            parse_cloud_url up url
              = Inr (''gcp'', url_netloc p, lstrip CHR ''/'' (url_path p)))
    \<and> (lower (url_scheme p) \<notin> {''s3'', ''azure'', ''gcs'', ''gs''} \<longrightarrow>
            parse_cloud_url up url
              = Inl (Exn builtins_ValueError
                      (''Unsupported URL scheme: '' @ lower (url_scheme p))))
    \<and> (\<exists>n. url_path p = replicate n CHR ''/'' @ lstrip CHR ''/'' (url_path p))
    \<and> (lstrip CHR ''/'' (url_path p) = [] \<or> hd (lstrip CHR ''/'' (url_path p)) \<noteq> CHR ''/'')
    \<and> (url_path p = [] \<longrightarrow> lstrip CHR ''/'' (url_path p) = [])
    \<and> (\<forall>up' p'. up' url = Inr p' \<and> lower (url_scheme p') = lower (url_scheme p)
            \<and> url_netloc p' = url_netloc p \<and> url_path p' = url_path p \<longrightarrow>
          parse_cloud_url up' url = parse_cloud_url up url)
    \<and> (\<forall>u e. up u = Inl e \<longrightarrow> parse_cloud_url up u = Inl e)
    \<and> (\<forall>u. u = url \<longrightarrow> parse_cloud_url up u = parse_cloud_url up url)"
proof -
  have a: "lower (url_scheme p) = ''s3'' \<longrightarrow>
            parse_cloud_url up url
              = Inr (''aws'', url_netloc p, lstrip CHR ''/'' (url_path p))"
    using p by (simp add: parse_cloud_url_def Let_def)
  have b: "lower (url_scheme p) = ''azure'' \<longrightarrow>
            parse_cloud_url up url
              = Inr (''azure'', url_netloc p, lstrip CHR ''/'' (url_path p))"
    using p by (simp add: parse_cloud_url_def Let_def)
  have c: "lower (url_scheme p) \<in> {''gcs'', ''gs''} \<longrightarrow>
            parse_cloud_url up url
              = Inr (''gcp'', url_netloc p, lstrip CHR ''/'' (url_path p))"
    using p by (auto simp: parse_cloud_url_def Let_def)
  have d: "lower (url_scheme p) \<notin> {''s3'', ''azure'', ''gcs'', ''gs''} \<longrightarrow>
            parse_cloud_url up url
              = Inl (Exn builtins_ValueError
                      (''Unsupported URL scheme: '' @ lower (url_scheme p)))"
    using p by (simp add: parse_cloud_url_def Let_def)
  have e: "\<exists>n. url_path p = replicate n CHR ''/'' @ lstrip CHR ''/'' (url_path p)"
    by (rule lstrip_replicate)
  have f: "lstrip CHR ''/'' (url_path p) = [] \<or> hd (lstrip CHR ''/'' (url_path p)) \<noteq> CHR ''/''"
    by (rule lstrip_no_leading)
  have g: "url_path p = [] \<longrightarrow> lstrip CHR ''/'' (url_path p) = []"
    by (simp add: lstrip_def)
  have h: "\<forall>up' p'. up' url = Inr p' \<and> lower (url_scheme p') = lower (url_scheme p)
            \<and> url_netloc p' = url_netloc p \<and> url_path p' = url_path p \<longrightarrow>
          parse_cloud_url up' url = parse_cloud_url up url"
    using p by (simp add: parse_cloud_url_def Let_def)
  have i: "\<forall>u e. up u = Inl e \<longrightarrow> parse_cloud_url up u = Inl e"
    by (simp add: parse_cloud_url_def)
  have j: "\<forall>u. u = url \<longrightarrow> parse_cloud_url up u = parse_cloud_url up url"
    by simp
  from a b c d e f g h i j show ?thesis by blast
qed

text \<open>
  The theorem at three URLs under the stand-in parser: the URL of the repository's
  test, an upper-case alias with a doubled slash, a query and a fragment, and the
  scheme that the repository's test expects to be refused.
\<close>

theorem parse_cloud_url_contract_witness:
  "parse_cloud_url urlparse_model ''s3://bucket/folder/file.txt''
     = Inr (''aws'', ''bucket'', ''folder/file.txt'')
   \<and> parse_cloud_url urlparse_model ''GS://Bucket//a/b?x=1#f'' = Inr (''gcp'', ''Bucket'', ''a/b'')
   \<and> parse_cloud_url urlparse_model ''invalid://bucket/file.txt''
     = Inl (Exn builtins_ValueError ''Unsupported URL scheme: invalid'')"
proof -
  have p1: "urlparse_model ''s3://bucket/folder/file.txt''
      = Inr \<lparr>url_scheme = ''s3'', url_netloc = ''bucket'', url_path = ''/folder/file.txt'',
             url_params = [], url_query = [], url_fragment = []\<rparr>"
    and p2: "urlparse_model ''GS://Bucket//a/b?x=1#f''
      = Inr \<lparr>url_scheme = ''gs'', url_netloc = ''Bucket'', url_path = ''//a/b'',
             url_params = [], url_query = ''x=1'', url_fragment = ''f''\<rparr>"
    and p3: "urlparse_model ''invalid://bucket/file.txt''
      = Inr \<lparr>url_scheme = ''invalid'', url_netloc = ''bucket'', url_path = ''/file.txt'',
             url_params = [], url_query = [], url_fragment = []\<rparr>"
    by (simp_all add: url_defs string_defs)
  from parse_cloud_url_contract [where up = urlparse_model and url = "''s3://bucket/folder/file.txt''", OF p1]
  have r1: "parse_cloud_url urlparse_model ''s3://bucket/folder/file.txt''
     = Inr (''aws'', ''bucket'', ''folder/file.txt'')"
    by (simp add: string_defs)
  from parse_cloud_url_contract [where up = urlparse_model and url = "''GS://Bucket//a/b?x=1#f''", OF p2]
  have r2: "parse_cloud_url urlparse_model ''GS://Bucket//a/b?x=1#f''
     = Inr (''gcp'', ''Bucket'', ''a/b'')"
    by (simp add: string_defs)
  from parse_cloud_url_contract [where up = urlparse_model and url = "''invalid://bucket/file.txt''", OF p3]
  have r3: "parse_cloud_url urlparse_model ''invalid://bucket/file.txt''
     = Inl (Exn builtins_ValueError ''Unsupported URL scheme: invalid'')"
    by (simp add: string_defs)
  from r1 r2 r3 show ?thesis by simp
qed

section \<open>The orchestrator\<close>

lemma cleanup_temp_files:
  "p \<in> files (cleanup_temp p w) \<Longrightarrow> p \<in> locked (cleanup_temp p w)"
  by (auto simp: cleanup_temp_def unlink_def split: if_splits)

lemma copy_file_direct_cross:
  assumes "parse_cloud_url (urlparse env) source_url = Inr (sp, sc, spath)"
    and "parse_cloud_url (urlparse env) dest_url = Inr (dp, dc, dpath)"
    and "sp \<noteq> dp"
  shows "snd (copy_file_direct env source_url dest_url kw w)
           = snd (copy_via_temp env sp sc spath dp dc dpath kw w)"
  using assms
  by (simp add: copy_file_direct_def Let_def split: prod.splits sum.splits)

text \<open>
  C1, as the code has it.  After a cross-backend transfer the staging file is gone
  unless the operating system refused to remove it: the \<^verbatim>\<open>finally\<close> block of
  \<^verbatim>\<open>_copy_via_temp\<close> runs whatever the two legs did (returned a success, returned
  a failure, raised), unlinks the file when it exists, and swallows an exception of
  the unlink.  Nothing is assumed of the connectors.  The same holds of
  \<^verbatim>\<open>copy_file_direct\<close> on two URLs of different providers.
\<close>

theorem staging_file_removed_unless_unlink_fails:
  shows "(temp_file_path (now w) spath
            \<in> files (snd (copy_via_temp env sp sc spath dp dc dpath kw w)) \<longrightarrow>
          temp_file_path (now w) spath
            \<in> locked (snd (copy_via_temp env sp sc spath dp dc dpath kw w)))
    \<and> (parse_cloud_url (urlparse env) source_url = Inr (sp, sc, spath)
        \<and> parse_cloud_url (urlparse env) dest_url = Inr (dp, dc, dpath) \<and> sp \<noteq> dp \<longrightarrow>
          (temp_file_path (now w) spath
             \<in> files (snd (copy_file_direct env source_url dest_url kw w)) \<longrightarrow>
           temp_file_path (now w) spath
             \<in> locked (snd (copy_file_direct env source_url dest_url kw w))))"
proof -
  have a: "temp_file_path (now w) spath
            \<in> files (snd (copy_via_temp env sp sc spath dp dc dpath kw w)) \<longrightarrow>
          temp_file_path (now w) spath
            \<in> locked (snd (copy_via_temp env sp sc spath dp dc dpath kw w))"
    by (auto simp: copy_via_temp_def Let_def split: prod.splits dest: cleanup_temp_files)
  then show ?thesis by (auto simp: copy_file_direct_cross)
qed

text \<open>
  The theorem at three transfers from S3 to Azure in a world where nothing is locked:
  both legs succeed; the upload leg reports a failure (container \<open>full\<close>); the
  download leg reports a failure (no such object); and, towards GCP, the download
  succeeds and the connector of the destination raises.  No staging file is left.
\<close>

theorem staging_file_removed_unless_unlink_fails_witness:
  "''temp_transfers/temp_1700000000_a.txt''
     \<notin> files (snd (copy_file_direct demo_env ''s3://bkt/a.txt'' ''azure://c/a.txt'' [] demo_world))
   \<and> ''temp_transfers/temp_1700000000_a.txt''
     \<notin> files (snd (copy_file_direct demo_env ''s3://bkt/a.txt'' ''azure://full/a.txt'' []
                     demo_world))
   \<and> ''temp_transfers/temp_1700000000_zz.txt''
     \<notin> files (snd (copy_file_direct demo_env ''s3://bkt/zz.txt'' ''azure://c/a.txt'' []
                     demo_world))
   \<and> ''temp_transfers/temp_1700000000_a.txt''
     \<notin> files (snd (copy_file_direct demo_env ''s3://bkt/a.txt'' ''gs://b/a.txt'' [] demo_world))"
proof -
  have p1: "parse_cloud_url (urlparse demo_env) ''s3://bkt/a.txt'' = Inr (''aws'', ''bkt'', ''a.txt'')"
    and p2: "parse_cloud_url (urlparse demo_env) ''azure://c/a.txt'' = Inr (''azure'', ''c'', ''a.txt'')"
    and p3: "parse_cloud_url (urlparse demo_env) ''azure://full/a.txt''
               = Inr (''azure'', ''full'', ''a.txt'')"
    and p4: "parse_cloud_url (urlparse demo_env) ''s3://bkt/zz.txt'' = Inr (''aws'', ''bkt'', ''zz.txt'')"
    and p5: "parse_cloud_url (urlparse demo_env) ''gs://b/a.txt'' = Inr (''gcp'', ''b'', ''a.txt'')"
    by (simp_all add: demo_env_def url_defs string_defs)
  have ne: "''aws'' \<noteq> ''azure''" and ne': "''aws'' \<noteq> ''gcp''" by simp_all
  have t1: "temp_file_path (now demo_world) ''a.txt'' = ''temp_transfers/temp_1700000000_a.txt''"
    and t2: "temp_file_path (now demo_world) ''zz.txt'' = ''temp_transfers/temp_1700000000_zz.txt''"
    by (simp_all add: temp_file_path_def demo_world_def string_defs)
  have l1: "locked (snd (copy_file_direct demo_env ''s3://bkt/a.txt'' ''azure://c/a.txt'' []
                           demo_world)) = {}"
    and l2: "locked (snd (copy_file_direct demo_env ''s3://bkt/a.txt'' ''azure://full/a.txt'' []
                           demo_world)) = {}"
    and l3: "locked (snd (copy_file_direct demo_env ''s3://bkt/zz.txt'' ''azure://c/a.txt'' []
                           demo_world)) = {}"
    and l4: "locked (snd (copy_file_direct demo_env ''s3://bkt/a.txt'' ''gs://b/a.txt'' []
                           demo_world)) = {}"
    by (simp_all add: orch_defs demo_defs url_defs string_defs)
  from staging_file_removed_unless_unlink_fails
         [of demo_world "''a.txt''" demo_env "''aws''" "''bkt''" "''azure''" "''c''" "''a.txt''" "[]"
             "''s3://bkt/a.txt''" "''azure://c/a.txt''"]
       p1 p2 ne t1 l1
  have r1: "''temp_transfers/temp_1700000000_a.txt''
     \<notin> files (snd (copy_file_direct demo_env ''s3://bkt/a.txt'' ''azure://c/a.txt'' [] demo_world))"
    by auto
  from staging_file_removed_unless_unlink_fails
         [of demo_world "''a.txt''" demo_env "''aws''" "''bkt''" "''azure''" "''full''" "''a.txt''" "[]"
             "''s3://bkt/a.txt''" "''azure://full/a.txt''"]
       p1 p3 ne t1 l2
  have r2: "''temp_transfers/temp_1700000000_a.txt''
     \<notin> files (snd (copy_file_direct demo_env ''s3://bkt/a.txt'' ''azure://full/a.txt'' []
                     demo_world))"
    by auto
  from staging_file_removed_unless_unlink_fails
         [of demo_world "''zz.txt''" demo_env "''aws''" "''bkt''" "''azure''" "''c''" "''a.txt''" "[]"
             "''s3://bkt/zz.txt''" "''azure://c/a.txt''"]
       p4 p2 ne t2 l3
  have r3: "''temp_transfers/temp_1700000000_zz.txt''
     \<notin> files (snd (copy_file_direct demo_env ''s3://bkt/zz.txt'' ''azure://c/a.txt'' []
                     demo_world))"
    by auto
  from staging_file_removed_unless_unlink_fails
         [of demo_world "''a.txt''" demo_env "''aws''" "''bkt''" "''gcp''" "''b''" "''a.txt''" "[]"
             "''s3://bkt/a.txt''" "''gs://b/a.txt''"]
       p1 p5 ne' t1 l4
  have r4: "''temp_transfers/temp_1700000000_a.txt''
     \<notin> files (snd (copy_file_direct demo_env ''s3://bkt/a.txt'' ''gs://b/a.txt'' [] demo_world))"
    by auto
  from r1 r2 r3 r4 show ?thesis by simp
qed

text \<open>
  C1 as the specification states it fails when the unlink fails.  In
  \<open>demo_world_locked\<close> the transfer from S3 to Azure succeeds, and its staging file
  is still there afterwards.
\<close>

theorem staging_file_counterexample:
  "fst (copy_file_direct demo_env ''s3://bkt/a.txt'' ''azure://c/a.txt'' [] demo_world_locked)
     = Inr \<lparr>success = True, source_path = ''aws://bkt/a.txt'',
            destination_path = ''azure://c/a.txt'', bytes_transferred = 5,
            duration_seconds = 4, error_message = None\<rparr>
   \<and> ''temp_transfers/temp_1700000000_a.txt''
       \<in> files (snd (copy_file_direct demo_env ''s3://bkt/a.txt'' ''azure://c/a.txt'' []
                       demo_world_locked))"
  by (simp add: orch_defs demo_defs url_defs string_defs)

lemma copy_file_direct_returns:
  assumes "\<not> isl (parse_cloud_url (urlparse env) source_url)"
    and "\<not> isl (parse_cloud_url (urlparse env) dest_url)"
  shows "\<exists>r w'. copy_file_direct env source_url dest_url kw w = (Inr r, w')"
  using assms
  by (cases "parse_cloud_url (urlparse env) source_url";
      cases "parse_cloud_url (urlparse env) dest_url")
     (auto simp: copy_file_direct_def Let_def split: prod.splits sum.splits)

lemma copy_file_direct_bad:
  assumes bad: "isl (parse_cloud_url (urlparse env) source_url)
                \<or> isl (parse_cloud_url (urlparse env) dest_url)"
  shows "\<exists>e. copy_file_direct env source_url dest_url kw w = (Inl e, w)
            \<and> (parse_cloud_url (urlparse env) source_url = Inl e
                \<or> parse_cloud_url (urlparse env) dest_url = Inl e)"
proof (cases "parse_cloud_url (urlparse env) source_url")
  case (Inl e)
  then show ?thesis by (intro exI [of _ e]) (simp add: copy_file_direct_def Let_def)
next
  case (Inr t)
  with bad obtain e where d: "parse_cloud_url (urlparse env) dest_url = Inl e"
    by (cases "parse_cloud_url (urlparse env) dest_url") auto
  with Inr show ?thesis
    by (intro exI [of _ e]) (simp add: copy_file_direct_def Let_def split: prod.splits)
qed

text \<open>
  C3, as the code has it.  When one of the two URLs does not parse,
  \<^verbatim>\<open>copy_file_direct\<close> raises the parser's exception: both URLs are parsed before
  the \<^verbatim>\<open>try\<close>, so no result is returned.  The world is left as it was, and the
  outcome is the same under every environment with the same \<^verbatim>\<open>urlparse\<close>: no
  connector is looked up, authenticated or invoked.  For a scheme outside
  \<open>s3\<close>, \<open>azure\<close>, \<open>gcs\<close>, \<open>gs\<close> the exception is the \<^verbatim>\<open>ValueError\<close> of
  \<^verbatim>\<open>_parse_cloud_url\<close>.
\<close>

theorem copy_file_direct_raises_on_bad_url:
  fixes env :: "'r env"
  assumes bad: "isl (parse_cloud_url (urlparse env) source_url)
                \<or> isl (parse_cloud_url (urlparse env) dest_url)"
  shows "(\<exists>e. copy_file_direct env source_url dest_url kw w = (Inl e, w)
            \<and> (parse_cloud_url (urlparse env) source_url = Inl e
                \<or> parse_cloud_url (urlparse env) dest_url = Inl e)
            \<and> (\<forall>env' :: 'r env. urlparse env' = urlparse env \<longrightarrow>
                  copy_file_direct env' source_url dest_url kw w = (Inl e, w)))
    \<and> (\<forall>p. urlparse env source_url = Inr p
            \<and> lower (url_scheme p) \<notin> {''s3'', ''azure'', ''gcs'', ''gs''} \<longrightarrow>
          copy_file_direct env source_url dest_url kw w
            = (Inl (Exn builtins_ValueError
                     (''Unsupported URL scheme: '' @ lower (url_scheme p))), w))
    \<and> (\<forall>p. \<not> isl (parse_cloud_url (urlparse env) source_url)
            \<and> urlparse env dest_url = Inr p
            \<and> lower (url_scheme p) \<notin> {''s3'', ''azure'', ''gcs'', ''gs''} \<longrightarrow>
          copy_file_direct env source_url dest_url kw w
            = (Inl (Exn builtins_ValueError
                     (''Unsupported URL scheme: '' @ lower (url_scheme p))), w))"
proof -
  have a: "\<exists>e. copy_file_direct env source_url dest_url kw w = (Inl e, w)
            \<and> (parse_cloud_url (urlparse env) source_url = Inl e
                \<or> parse_cloud_url (urlparse env) dest_url = Inl e)
            \<and> (\<forall>env' :: 'r env. urlparse env' = urlparse env \<longrightarrow>
                  copy_file_direct env' source_url dest_url kw w = (Inl e, w))"
  proof -
    from copy_file_direct_bad [OF bad] obtain e where
      e: "copy_file_direct env source_url dest_url kw w = (Inl e, w)"
         "parse_cloud_url (urlparse env) source_url = Inl e
          \<or> parse_cloud_url (urlparse env) dest_url = Inl e" by blast
    have "copy_file_direct env' source_url dest_url kw w = (Inl e, w)"
      if same: "urlparse env' = urlparse env" for env' :: "'r env"
    proof -
      from bad same have "isl (parse_cloud_url (urlparse env') source_url)
                \<or> isl (parse_cloud_url (urlparse env') dest_url)" by simp
      from copy_file_direct_bad [OF this] obtain e' where
        e': "copy_file_direct env' source_url dest_url kw w = (Inl e', w)" by blast
      have "copy_file_direct env' source_url dest_url kw w
              = copy_file_direct env source_url dest_url kw w"
        using bad same
        by (cases "parse_cloud_url (urlparse env) source_url";
            cases "parse_cloud_url (urlparse env) dest_url")
           (auto simp: copy_file_direct_def Let_def split: prod.splits)
      with e(1) show ?thesis by simp
    qed
    with e show ?thesis by blast
  qed
  have b: "\<forall>p. urlparse env source_url = Inr p
            \<and> lower (url_scheme p) \<notin> {''s3'', ''azure'', ''gcs'', ''gs''} \<longrightarrow>
          copy_file_direct env source_url dest_url kw w
            = (Inl (Exn builtins_ValueError
                     (''Unsupported URL scheme: '' @ lower (url_scheme p))), w)"
    by (simp add: copy_file_direct_def parse_cloud_url_def Let_def)
  have c: "\<forall>p. \<not> isl (parse_cloud_url (urlparse env) source_url)
            \<and> urlparse env dest_url = Inr p
            \<and> lower (url_scheme p) \<notin> {''s3'', ''azure'', ''gcs'', ''gs''} \<longrightarrow>
          copy_file_direct env source_url dest_url kw w
            = (Inl (Exn builtins_ValueError
                     (''Unsupported URL scheme: '' @ lower (url_scheme p))), w)"
    by (cases "parse_cloud_url (urlparse env) source_url")
       (auto simp: copy_file_direct_def Let_def parse_cloud_url_def [of _ dest_url]
          split: prod.splits)
  from a b c show ?thesis by blast
qed

text \<open>
  The theorem at an unsupported destination scheme: the source parses, the
  destination does not, and the call raises with the world untouched.
\<close>

theorem copy_file_direct_raises_on_bad_url_witness:
  "copy_file_direct demo_env ''s3://bkt/a.txt'' ''ftp://host/a.txt'' [] demo_world
     = (Inl (Exn builtins_ValueError ''Unsupported URL scheme: ftp''), demo_world)"
proof -
  have src: "\<not> isl (parse_cloud_url (urlparse demo_env) ''s3://bkt/a.txt'')"
    and bad: "isl (parse_cloud_url (urlparse demo_env) ''s3://bkt/a.txt'')
              \<or> isl (parse_cloud_url (urlparse demo_env) ''ftp://host/a.txt'')"
    and p: "urlparse demo_env ''ftp://host/a.txt''
      = Inr \<lparr>url_scheme = ''ftp'', url_netloc = ''host'', url_path = ''/a.txt'',
             url_params = [], url_query = [], url_fragment = []\<rparr>"
    by (simp_all add: demo_env_def url_defs string_defs)
  from copy_file_direct_raises_on_bad_url [OF bad, of "[]" demo_world] src p
  show ?thesis by (simp add: string_defs)
qed

text \<open>
  C3 as the specification states it fails: for an unsupported source scheme the call
  does not return a failed outcome, it raises \<^verbatim>\<open>ValueError\<close>.
\<close>

theorem copy_file_direct_counterexample:
  "copy_file_direct demo_env ''ftp://bucket/a.txt'' ''s3://bkt/a.txt'' [] demo_world
     = (Inl (Exn builtins_ValueError ''Unsupported URL scheme: ftp''), demo_world)"
  by (simp add: copy_file_direct_def demo_env_def url_defs string_defs)

section \<open>The batch runner\<close>

lemma batch_loop_acc:
  "batch_loop env ts kw acc w =
     (case batch_loop env ts kw [] w of
        (Inl e, w') \<Rightarrow> (Inl e, w')
      | (Inr rs, w') \<Rightarrow> (Inr (acc @ rs), w'))"
proof (induction ts arbitrary: acc w)
  case Nil
  show ?case by simp
next
  case (Cons t ts)
  obtain s d where t: "t = (s, d)" by (cases t) auto
  show ?case
  proof (cases "copy_file_direct env s d kw w")
    case (Pair r w1)
    show ?thesis
    proof (cases r)
      case (Inl e)
      with Pair t show ?thesis by simp
    next
      case (Inr x)
      with Pair t Cons.IH [of "acc @ [x]" w1] Cons.IH [of "[x]" w1] show ?thesis
        by (simp split: prod.splits sum.splits)
    qed
  qed
qed

lemma batch_loop_append:
  "batch_loop env (ts1 @ ts2) kw acc w =
     (case batch_loop env ts1 kw acc w of
        (Inl e, w1) \<Rightarrow> (Inl e, w1)
      | (Inr rs, w1) \<Rightarrow> batch_loop env ts2 kw rs w1)"
proof (induction ts1 arbitrary: acc w)
  case Nil
  show ?case by simp
next
  case (Cons t ts1)
  obtain s d where t: "t = (s, d)" by (cases t) auto
  show ?case using t Cons.IH by (simp split: prod.splits sum.splits)
qed

lemma batch_loop_total:
  assumes "\<forall>t \<in> set ts. \<not> isl (parse_cloud_url (urlparse env) (fst t))
                         \<and> \<not> isl (parse_cloud_url (urlparse env) (snd t))"
  shows "\<exists>rs w'. batch_loop env ts kw [] w = (Inr rs, w') \<and> length rs = length ts"
  using assms
proof (induction ts arbitrary: w)
  case Nil
  show ?case by simp
next
  case (Cons t ts)
  obtain s d where t: "t = (s, d)" by (cases t) auto
  from Cons.prems t obtain r w1 where c: "copy_file_direct env s d kw w = (Inr r, w1)"
    using copy_file_direct_returns [of env s d kw w] by auto
  from Cons.IH [of w1] Cons.prems obtain rs w' where
    rs: "batch_loop env ts kw [] w1 = (Inr rs, w')" "length rs = length ts" by auto
  have "batch_loop env (t # ts) kw [] w = (Inr ([r] @ rs), w')"
    using t c rs batch_loop_acc [of env ts kw "[r]" w1] by simp
  with rs(2) show ?case by simp
qed

lemma batch_copy_all_parse:
  assumes ok: "\<forall>t \<in> set transfers. \<not> isl (parse_cloud_url (urlparse env) (fst t))
                                  \<and> \<not> isl (parse_cloud_url (urlparse env) (snd t))"
  shows "\<exists>rs w'. batch_copy env transfers kw w = (Inr rs, w')
           \<and> length rs = length transfers
           \<and> (\<forall>i < length transfers. \<exists>wi wi'.
                 batch_copy env (take i transfers) kw w = (Inr (take i rs), wi)
                 \<and> copy_file_direct env (fst (transfers ! i)) (snd (transfers ! i)) kw wi
                     = (Inr (rs ! i), wi'))"
proof -
  from batch_loop_total [OF ok] obtain rs w' where
    rs: "batch_loop env transfers kw [] w = (Inr rs, w')" "length rs = length transfers"
    by blast
  have "\<exists>wi wi'. batch_copy env (take i transfers) kw w = (Inr (take i rs), wi)
          \<and> copy_file_direct env (fst (transfers ! i)) (snd (transfers ! i)) kw wi
              = (Inr (rs ! i), wi')" if i: "i < length transfers" for i
  proof -
    let ?pre = "take i transfers" and ?t = "transfers ! i" and ?post = "drop (Suc i) transfers"
    have split: "transfers = ?pre @ ?t # ?post" using i by (rule id_take_nth_drop)
    have okpre: "\<forall>t \<in> set ?pre. \<not> isl (parse_cloud_url (urlparse env) (fst t))
                                \<and> \<not> isl (parse_cloud_url (urlparse env) (snd t))"
      using ok by (auto dest: in_set_takeD)
    from batch_loop_total [OF okpre] obtain rsi wi where
      pre: "batch_loop env ?pre kw [] w = (Inr rsi, wi)" "length rsi = length ?pre" by blast
    have okt: "\<not> isl (parse_cloud_url (urlparse env) (fst ?t))"
         "\<not> isl (parse_cloud_url (urlparse env) (snd ?t))"
      using ok i by auto
    from copy_file_direct_returns [OF okt] obtain r wi' where
      c: "copy_file_direct env (fst ?t) (snd ?t) kw wi = (Inr r, wi')" by blast
    have okpost: "\<forall>t \<in> set ?post. \<not> isl (parse_cloud_url (urlparse env) (fst t))
                                 \<and> \<not> isl (parse_cloud_url (urlparse env) (snd t))"
      using ok by (auto dest: in_set_dropD)
    from batch_loop_total [OF okpost] obtain rsp wp where
      post: "batch_loop env ?post kw [] wi' = (Inr rsp, wp)" by blast
    have "batch_loop env (?pre @ ?t # ?post) kw [] w = (Inr ((rsi @ [r]) @ rsp), wp)"
      using pre c post batch_loop_acc [of env ?post kw "rsi @ [r]" wi']
      by (cases ?t) (simp add: batch_loop_append)
    with split rs have "rs = rsi @ r # rsp" by simp
    moreover have "length rsi = i" using pre(2) i by simp
    ultimately have "take i rs = rsi" and "rs ! i = r" by (simp_all add: nth_append)
    with pre c show ?thesis by (auto simp: batch_copy_def)
  qed
  with rs show ?thesis by (auto simp: batch_copy_def)
qed

lemma batch_copy_first_bad:
  assumes j: "j < length transfers"
    and before: "\<forall>i < j. \<not> isl (parse_cloud_url (urlparse env) (fst (transfers ! i)))
                         \<and> \<not> isl (parse_cloud_url (urlparse env) (snd (transfers ! i)))"
    and bad: "isl (parse_cloud_url (urlparse env) (fst (transfers ! j)))
              \<or> isl (parse_cloud_url (urlparse env) (snd (transfers ! j)))"
  shows "\<exists>e rs wj. batch_copy env (take j transfers) kw w = (Inr rs, wj) \<and> length rs = j
           \<and> batch_copy env transfers kw w = (Inl e, wj)
           \<and> (parse_cloud_url (urlparse env) (fst (transfers ! j)) = Inl e
               \<or> parse_cloud_url (urlparse env) (snd (transfers ! j)) = Inl e)"
proof -
  let ?pre = "take j transfers" and ?t = "transfers ! j" and ?post = "drop (Suc j) transfers"
  have split: "transfers = ?pre @ ?t # ?post" using j by (rule id_take_nth_drop)
  have okpre: "\<forall>t \<in> set ?pre. \<not> isl (parse_cloud_url (urlparse env) (fst t))
                              \<and> \<not> isl (parse_cloud_url (urlparse env) (snd t))"
  proof
    fix t assume "t \<in> set ?pre"
    then obtain i where "i < length ?pre" and "t = ?pre ! i" by (auto simp: in_set_conv_nth)
    then have "i < j" and "t = transfers ! i" using j by simp_all
    with before show "\<not> isl (parse_cloud_url (urlparse env) (fst t))
                      \<and> \<not> isl (parse_cloud_url (urlparse env) (snd t))" by blast
  qed
  from batch_loop_total [OF okpre] obtain rs wj where
    pre: "batch_loop env ?pre kw [] w = (Inr rs, wj)" "length rs = length ?pre" by blast
  from copy_file_direct_bad [OF bad] obtain e where
    c: "copy_file_direct env (fst ?t) (snd ?t) kw wj = (Inl e, wj)"
    and e: "parse_cloud_url (urlparse env) (fst ?t) = Inl e
            \<or> parse_cloud_url (urlparse env) (snd ?t) = Inl e" by blast
  have "batch_loop env (?pre @ ?t # ?post) kw [] w = (Inl e, wj)"
    using pre c by (cases ?t) (simp add: batch_loop_append)
  with split have "batch_copy env transfers kw w = (Inl e, wj)" by (simp add: batch_copy_def)
  moreover have "length rs = j" using pre(2) j by simp
  ultimately show ?thesis using pre(1) e by (auto simp: batch_copy_def)
qed

text \<open>
  C2, as the code has it.  When every URL of the list parses, \<^verbatim>\<open>batch_copy\<close>
  returns one result for each pair, in the order of the pairs: the \<open>i\<close>-th result is
  what \<^verbatim>\<open>copy_file_direct\<close> returned for the \<open>i\<close>-th pair, run in the world that the
  batch over the first \<open>i\<close> pairs has left, whose results are the first \<open>i\<close> results.
  Whether an earlier result is a failure plays no part.  When the pair at position
  \<open>j\<close> is the first with a URL that does not parse, \<^verbatim>\<open>batch_copy\<close> raises the
  parser's exception and returns no list: the first \<open>j\<close> transfers have been carried
  out, and the world is the one they have left, so no later pair is run.
\<close>

theorem batch_copy_results:
  shows "((\<forall>t \<in> set transfers. \<not> isl (parse_cloud_url (urlparse env) (fst t))
                             \<and> \<not> isl (parse_cloud_url (urlparse env) (snd t))) \<longrightarrow>
          (\<exists>rs w'. batch_copy env transfers kw w = (Inr rs, w')
             \<and> length rs = length transfers
             \<and> (\<forall>i < length transfers. \<exists>wi wi'.
                   batch_copy env (take i transfers) kw w = (Inr (take i rs), wi)
                   \<and> copy_file_direct env (fst (transfers ! i)) (snd (transfers ! i)) kw wi
                       = (Inr (rs ! i), wi'))))
    \<and> (\<forall>j < length transfers.
          (\<forall>i < j. \<not> isl (parse_cloud_url (urlparse env) (fst (transfers ! i)))
                   \<and> \<not> isl (parse_cloud_url (urlparse env) (snd (transfers ! i))))
          \<and> (isl (parse_cloud_url (urlparse env) (fst (transfers ! j)))
              \<or> isl (parse_cloud_url (urlparse env) (snd (transfers ! j)))) \<longrightarrow>
          (\<exists>e rs wj. batch_copy env (take j transfers) kw w = (Inr rs, wj) \<and> length rs = j
             \<and> batch_copy env transfers kw w = (Inl e, wj)
             \<and> (parse_cloud_url (urlparse env) (fst (transfers ! j)) = Inl e
                 \<or> parse_cloud_url (urlparse env) (snd (transfers ! j)) = Inl e)))"
  using batch_copy_all_parse [of transfers env kw w] batch_copy_first_bad [of _ transfers env kw w]
  by blast

text \<open>
  The theorem at a batch of two copies inside one bucket, of a missing object and of
  an object that is there: the first result is a failure, and the second transfer is
  run all the same and succeeds.
\<close>

theorem batch_copy_results_witness:
  "fst (batch_copy demo_env
          [(''s3://bkt/missing.txt'', ''s3://bkt/b.txt''), (''s3://bkt/a.txt'', ''s3://bkt/c.txt'')]
          [] demo_world)
     = Inr [\<lparr>success = False, source_path = ''bkt/missing.txt'', destination_path = ''bkt/b.txt'',
             bytes_transferred = 0, duration_seconds = 0,
             error_message = Some ''source not found''\<rparr>,
            \<lparr>success = True, source_path = ''bkt/a.txt'', destination_path = ''bkt/c.txt'',
             bytes_transferred = 5, duration_seconds = 2, error_message = None\<rparr>]"
proof -
  let ?ts = "[(''s3://bkt/missing.txt'', ''s3://bkt/b.txt''), (''s3://bkt/a.txt'', ''s3://bkt/c.txt'')]"
  have ok: "\<forall>t \<in> set ?ts. \<not> isl (parse_cloud_url (urlparse demo_env) (fst t))
                          \<and> \<not> isl (parse_cloud_url (urlparse demo_env) (snd t))"
    by (simp add: demo_env_def url_defs string_defs)
  from batch_copy_results [of ?ts demo_env "[]" demo_world] ok
  obtain rs w' where rs: "batch_copy demo_env ?ts [] demo_world = (Inr rs, w')"
    and len: "length rs = length ?ts" by blast
  have "batch_copy demo_env ?ts [] demo_world
      = (Inr [\<lparr>success = False, source_path = ''bkt/missing.txt'',
                destination_path = ''bkt/b.txt'', bytes_transferred = 0, duration_seconds = 0,
                error_message = Some ''source not found''\<rparr>,
              \<lparr>success = True, source_path = ''bkt/a.txt'', destination_path = ''bkt/c.txt'',
                bytes_transferred = 5, duration_seconds = 2, error_message = None\<rparr>],
         snd (batch_copy demo_env ?ts [] demo_world))"
    by (simp add: batch_copy_def orch_defs demo_defs url_defs string_defs)
  with rs len show ?thesis by simp
qed

text \<open>
  C2 as the specification states it fails on a list with a URL that does not parse:
  \<^verbatim>\<open>batch_copy\<close> returns no list, it raises; the first transfer has been carried
  out, and the third, whose URLs are in order, is never run.
\<close>

theorem batch_copy_counterexample:
  "fst (batch_copy demo_env
          [(''s3://bkt/a.txt'', ''s3://bkt/b.txt''), (''ftp://host/y'', ''s3://bkt/c.txt''),
           (''s3://bkt/a.txt'', ''s3://bkt/d.txt'')] [] demo_world)
     = Inl (Exn builtins_ValueError ''Unsupported URL scheme: ftp'')
   \<and> remote (snd (batch_copy demo_env
          [(''s3://bkt/a.txt'', ''s3://bkt/b.txt''), (''ftp://host/y'', ''s3://bkt/c.txt''),
           (''s3://bkt/a.txt'', ''s3://bkt/d.txt'')] [] demo_world))
     = {''bkt/b.txt'', ''bkt/a.txt''}"
  by (simp add: batch_copy_def orch_defs demo_defs url_defs string_defs)

section \<open>Outcomes\<close>

lemma outcome_ok_failed [simp]: "outcome_ok (failed src dst msg)"
  by (simp add: outcome_ok_def outcome_shape_def failed_def TransferResult_def)

lemma outcome_ok_succeeded [simp]: "outcome_ok (succeeded src dst n t)"
  by (simp add: outcome_ok_def outcome_shape_def succeeded_def TransferResult_def)









section \<open>Delete and exists\<close>

lemma decorated_first_returns:
  "attempts 0 = Inr v \<Longrightarrow> fst (decorated lg cfg attempts) = Inr v"
  by (simp add: decorated_def with_retry_def Let_def tenacity_returns)

lemma decorated_first_raises:
  "attempts 0 = Inl e \<Longrightarrow> \<not> isinstance e RETRIABLE_EXCEPTIONS
     \<Longrightarrow> fst (decorated lg cfg attempts) = Inl e"
  by (simp add: decorated_def with_retry_def Let_def tenacity_not_retriable)

lemma decorated_first_retriable:
  assumes "attempts 0 = Inl e" and "isinstance e RETRIABLE_EXCEPTIONS"
  shows "decorated lg cfg attempts
     = (Inl (if 1 < max_retries cfg then before_sleep_log lg else RetryError e), 1, [])"
proof (cases "1 < max_retries cfg")
  case True
  then have "1 < or_default None (max_retries cfg)" by (simp add: or_default_def)
  with assms True show ?thesis
    by (simp add: decorated_def with_retry_def Let_def tenacity_callback_raises)
next
  case False
  then have "or_default None (max_retries cfg) \<le> 1" by (simp add: or_default_def)
  with assms False show ?thesis
    by (simp add: decorated_def with_retry_def Let_def tenacity_exhausted)
qed

lemma decorated_once: "fst (snd (decorated lg cfg attempts)) = 1"
proof (cases "attempts 0")
  case (Inr v)
  then show ?thesis by (simp add: decorated_def with_retry_def Let_def tenacity_returns)
next
  case (Inl e)
  then show ?thesis
    by (cases "isinstance e RETRIABLE_EXCEPTIONS")
       (simp_all add: decorated_first_retriable,
        simp add: decorated_def with_retry_def Let_def tenacity_not_retriable)
qed

lemma retriable_not_ClientError:
  "isinstance e RETRIABLE_EXCEPTIONS \<Longrightarrow> \<not> isinstance e [botocore_ClientError]"
  by (auto simp: isinstance_retriable isinstance_ClientError)

text \<open>
  C8, as the code has it.  With the client handle in place (or \<^verbatim>\<open>authenticate\<close>
  returning), \<^verbatim>\<open>delete_file\<close> of the Azure and of the GCP connector returns true
  when the SDK's delete call returns and false when it raises, whatever it raises;
  a delete of a missing object raises the SDK's not-found error there, so the answer
  is false.  \<^verbatim>\<open>S3Connector.delete_file\<close> returns true when \<^verbatim>\<open>delete_object\<close> returns
  (it makes no check of its own that the object exists), false when it raises a
  \<^verbatim>\<open>ClientError\<close>, and raises after every other exception: the exception itself
  when it is not of the retriable kind, and for one of the retriable kind the
  exception with which the retry decorator answers it, which is that of the logging
  callback when \<^verbatim>\<open>config.max_retries\<close> is above 1 and a \<^verbatim>\<open>RetryError\<close> otherwise.
  In all three connectors an exception of the lazy \<^verbatim>\<open>authenticate\<close> leaves the method
  in the same way.  In every case the body of the method has run once when
  \<^verbatim>\<open>delete_file\<close> ends.
\<close>

theorem delete_file_results:
  assumes auth: "ans_auth (answers 0) = None"
  shows "(c \<in> {AzureBlobConnector, GCPStorageConnector} \<longrightarrow>
            fst (delete_file lg cfg c answers) = Inr (ans_transfer (answers 0) = None))
    \<and> (c = S3Connector \<and> ans_transfer (answers 0) = None \<longrightarrow>
            fst (delete_file lg cfg c answers) = Inr True)
    \<and> (\<forall>e. c = S3Connector \<and> ans_transfer (answers 0) = Some e
            \<and> isinstance e [botocore_ClientError] \<longrightarrow>
            fst (delete_file lg cfg c answers) = Inr False)
    \<and> (\<forall>e. c = S3Connector \<and> ans_transfer (answers 0) = Some e
            \<and> \<not> isinstance e [botocore_ClientError] \<and> \<not> isinstance e RETRIABLE_EXCEPTIONS \<longrightarrow>
            fst (delete_file lg cfg c answers) = Inl e)
    \<and> (\<forall>e. c = S3Connector \<and> ans_transfer (answers 0) = Some e
            \<and> isinstance e RETRIABLE_EXCEPTIONS \<longrightarrow>
            delete_file lg cfg c answers
              = (Inl (if 1 < max_retries cfg then before_sleep_log lg else RetryError e), 1, []))
    \<and> (\<forall>answers' e. ans_auth (answers' 0) = Some e \<and> \<not> isinstance e RETRIABLE_EXCEPTIONS \<longrightarrow>
            fst (delete_file lg cfg c answers') = Inl e)
    \<and> (\<forall>answers' e. ans_auth (answers' 0) = Some e \<and> isinstance e RETRIABLE_EXCEPTIONS \<longrightarrow>
            delete_file lg cfg c answers'
              = (Inl (if 1 < max_retries cfg then before_sleep_log lg else RetryError e), 1, []))
    \<and> (\<forall>answers'. fst (snd (delete_file lg cfg c answers')) = 1)"
proof -
  have a: "c \<in> {AzureBlobConnector, GCPStorageConnector} \<longrightarrow>
            fst (delete_file lg cfg c answers) = Inr (ans_transfer (answers 0) = None)"
    using auth
    by (auto simp: delete_file_def delete_file_body_def azure_delete_file_def
        gcp_delete_file_def intro!: decorated_first_returns split: option.splits)
  have b: "c = S3Connector \<and> ans_transfer (answers 0) = None \<longrightarrow>
            fst (delete_file lg cfg c answers) = Inr True"
    using auth
    by (auto simp: delete_file_def delete_file_body_def s3_delete_file_def
        intro!: decorated_first_returns)
  have d: "\<forall>e. c = S3Connector \<and> ans_transfer (answers 0) = Some e
            \<and> isinstance e [botocore_ClientError] \<longrightarrow>
            fst (delete_file lg cfg c answers) = Inr False"
    using auth
    by (auto simp: delete_file_def delete_file_body_def s3_delete_file_def
        intro!: decorated_first_returns)
  have e: "\<forall>e. c = S3Connector \<and> ans_transfer (answers 0) = Some e
            \<and> \<not> isinstance e [botocore_ClientError] \<and> \<not> isinstance e RETRIABLE_EXCEPTIONS \<longrightarrow>
            fst (delete_file lg cfg c answers) = Inl e"
    using auth
    by (auto simp: delete_file_def delete_file_body_def s3_delete_file_def
        intro!: decorated_first_raises)
  have r: "\<forall>e. c = S3Connector \<and> ans_transfer (answers 0) = Some e
            \<and> isinstance e RETRIABLE_EXCEPTIONS \<longrightarrow>
            delete_file lg cfg c answers
              = (Inl (if 1 < max_retries cfg then before_sleep_log lg else RetryError e), 1, [])"
  proof (intro allI impI)
    fix e
    assume h: "c = S3Connector \<and> ans_transfer (answers 0) = Some e
            \<and> isinstance e RETRIABLE_EXCEPTIONS"
    then have "delete_file_body c (answers 0) = Inl e"
      using auth retriable_not_ClientError [of e]
      by (simp add: delete_file_body_def s3_delete_file_def)
    with h show "delete_file lg cfg c answers
              = (Inl (if 1 < max_retries cfg then before_sleep_log lg else RetryError e), 1, [])"
      unfolding delete_file_def by (intro decorated_first_retriable) simp_all
  qed
  have f: "\<forall>answers' e. ans_auth (answers' 0) = Some e \<and> \<not> isinstance e RETRIABLE_EXCEPTIONS \<longrightarrow>
            fst (delete_file lg cfg c answers') = Inl e"
    by (cases c)
       (auto simp: delete_file_def delete_file_body_def s3_delete_file_def
          azure_delete_file_def gcp_delete_file_def intro!: decorated_first_raises)
  have g: "\<forall>answers' e. ans_auth (answers' 0) = Some e \<and> isinstance e RETRIABLE_EXCEPTIONS \<longrightarrow>
            delete_file lg cfg c answers'
              = (Inl (if 1 < max_retries cfg then before_sleep_log lg else RetryError e), 1, [])"
  proof (intro allI impI)
    fix answers' :: "nat \<Rightarrow> sdk_answers" and e
    assume h: "ans_auth (answers' 0) = Some e \<and> isinstance e RETRIABLE_EXCEPTIONS"
    then have "delete_file_body c (answers' 0) = Inl e"
      by (cases c)
         (simp_all add: delete_file_body_def s3_delete_file_def azure_delete_file_def
            gcp_delete_file_def)
    with h show "delete_file lg cfg c answers'
              = (Inl (if 1 < max_retries cfg then before_sleep_log lg else RetryError e), 1, [])"
      unfolding delete_file_def by (intro decorated_first_retriable) simp_all
  qed
  have once: "\<forall>answers'. fst (snd (delete_file lg cfg c answers')) = 1"
    by (simp add: delete_file_def decorated_once)
  from a b d e r f g once show ?thesis by blast
qed

text \<open>
  The theorem at three deletes: of a missing blob in Azure, where the SDK raises
  \<^verbatim>\<open>ResourceNotFoundError\<close> and the connector returns false; in S3 when the
  delete call returns, where the connector returns true; and in S3 when the delete
  call raises the builtin \<^verbatim>\<open>ConnectionResetError\<close>, where with three attempts
  allowed the connector raises the \<^verbatim>\<open>TypeError\<close> of the logging callback after
  one call.
\<close>

theorem delete_file_results_witness:
  "fst (delete_file structlog_defaults demo_config AzureBlobConnector
          (demo_always demo_answers_missing)) = Inr False
   \<and> fst (delete_file structlog_defaults demo_config S3Connector (demo_always demo_answers))
       = Inr True
   \<and> delete_file structlog_defaults demo_config S3Connector
       (demo_always demo_answers_connection_reset)
       = (Inl (before_sleep_log structlog_defaults), 1, [])"
proof -
  have auth: "ans_auth (demo_always demo_answers_missing 0) = None"
    and auth': "ans_auth (demo_always demo_answers 0) = None"
    and auth'': "ans_auth (demo_always demo_answers_connection_reset 0) = None"
    by (simp_all add: demo_always_def demo_answers_missing_def demo_answers_def
        demo_answers_connection_reset_def)
  from delete_file_results [where answers = "demo_always demo_answers_missing"
      and c = AzureBlobConnector and cfg = demo_config and lg = structlog_defaults, OF auth]
  have r1: "fst (delete_file structlog_defaults demo_config AzureBlobConnector
                   (demo_always demo_answers_missing)) = Inr False"
    by (simp add: demo_always_def demo_answers_missing_def demo_answers_def)
  from delete_file_results [where answers = "demo_always demo_answers"
      and c = S3Connector and cfg = demo_config and lg = structlog_defaults, OF auth']
  have r2: "fst (delete_file structlog_defaults demo_config S3Connector
                   (demo_always demo_answers)) = Inr True"
    by (simp add: demo_always_def demo_answers_def)
  have retriable: "isinstance (Exn builtins_ConnectionResetError ''Connection reset by peer'')
                     RETRIABLE_EXCEPTIONS"
    by (simp add: isinstance_def RETRIABLE_EXCEPTIONS_def)
  from delete_file_results [where answers = "demo_always demo_answers_connection_reset"
      and c = S3Connector and cfg = demo_config and lg = structlog_defaults, OF auth'']
    retriable
  have r3: "delete_file structlog_defaults demo_config S3Connector
              (demo_always demo_answers_connection_reset)
       = (Inl (before_sleep_log structlog_defaults), 1, [])"
    by (simp add: demo_always_def demo_answers_connection_reset_def demo_answers_def
        demo_config_def)
  from r1 r2 r3 show ?thesis by simp
qed

text \<open>
  C8 as the specification states it fails: when the S3 endpoint cannot be reached,
  botocore raises an error that is no \<^verbatim>\<open>ClientError\<close>, and
  \<^verbatim>\<open>S3Connector.delete_file\<close> raises it; and when the Azure connector cannot
  authenticate, its \<^verbatim>\<open>delete_file\<close> raises too.
\<close>

theorem delete_file_counterexample:
  "fst (delete_file structlog_defaults demo_config S3Connector
          (demo_always demo_answers_endpoint_down))
     = Inl (Exn botocore_BotoCoreError ''Could not connect to the endpoint URL'')
   \<and> fst (delete_file structlog_defaults demo_config AzureBlobConnector
            (demo_always demo_answers_no_credentials))
     = Inl (Exn base_ConnectionError
              ''Azure connection failed: Azure Blob Storage credentials not configured properly'')"
  by (simp add: delete_file_def delete_file_body_def s3_delete_file_def azure_delete_file_def
      demo_always_def demo_answers_endpoint_down_def demo_answers_no_credentials_def
      demo_answers_def decorated_def with_retry_def Let_def
      tenacity_retry.simps isinstance_def RETRIABLE_EXCEPTIONS_def)

text \<open>
  C9, as the code has it.  With the client handle in place, \<^verbatim>\<open>file_exists\<close> of the
  Azure and of the GCP connector returns the answer of the SDK's \<^verbatim>\<open>exists()\<close> and
  false when that call raises, whatever it raises.  \<^verbatim>\<open>S3Connector.file_exists\<close>
  returns true when \<^verbatim>\<open>head_object\<close> returns, false when it raises a
  \<^verbatim>\<open>ClientError\<close> with code \<open>404\<close>, and raises every other exception again, a
  \<^verbatim>\<open>ClientError\<close> with code \<open>403\<close> among them.  In all three connectors an
  exception of the lazy \<^verbatim>\<open>authenticate\<close> leaves the method.
\<close>

theorem file_exists_results:
  shows "(ans_auth a = None \<and> c \<in> {AzureBlobConnector, GCPStorageConnector} \<longrightarrow>
            (\<forall>found. ans_exists a = Inr found \<longrightarrow> file_exists c a = Inr found)
            \<and> (\<forall>e. ans_exists a = Inl e \<longrightarrow> file_exists c a = Inr False))
    \<and> (ans_auth a = None \<and> c = S3Connector \<longrightarrow>
            (\<forall>n. ans_size a = Inr n \<longrightarrow> file_exists c a = Inr True)
            \<and> (\<forall>e. ans_size a = Inl e \<and> isinstance e [botocore_ClientError]
                    \<and> error_code e = ''404'' \<longrightarrow> file_exists c a = Inr False)
            \<and> (\<forall>e. ans_size a = Inl e
                    \<and> \<not> (isinstance e [botocore_ClientError] \<and> error_code e = ''404'') \<longrightarrow>
                    file_exists c a = Inl e))
    \<and> (\<forall>e. ans_auth a = Some e \<longrightarrow> file_exists c a = Inl e)"
  by (cases c)
     (auto simp: file_exists_def s3_file_exists_def azure_file_exists_def gcp_file_exists_def)

text \<open>
  The theorem at three checks: a missing object in S3 (\<^verbatim>\<open>ClientError\<close> 404), a
  forbidden blob in GCP (\<^verbatim>\<open>Forbidden\<close> raised by \<^verbatim>\<open>exists()\<close>), and a missing blob
  in Azure (\<^verbatim>\<open>exists()\<close> answers no).  All three are false.
\<close>

theorem file_exists_results_witness:
  "file_exists S3Connector demo_answers_missing = Inr False
   \<and> file_exists GCPStorageConnector demo_answers_forbidden = Inr False
   \<and> file_exists AzureBlobConnector demo_answers_missing = Inr False"
proof -
  have r1: "file_exists S3Connector demo_answers_missing = Inr False"
    using file_exists_results [of demo_answers_missing S3Connector]
    by (simp add: demo_answers_missing_def demo_answers_def isinstance_def error_code_def)
  have r2: "file_exists GCPStorageConnector demo_answers_forbidden = Inr False"
    using file_exists_results [of demo_answers_forbidden GCPStorageConnector]
    by (simp add: demo_answers_forbidden_def demo_answers_def)
  have r3: "file_exists AzureBlobConnector demo_answers_missing = Inr False"
    using file_exists_results [of demo_answers_missing AzureBlobConnector]
    by (auto simp: demo_answers_missing_def demo_answers_def)
  from r1 r2 r3 show ?thesis by simp
qed

text \<open>
  C9 as the specification states it fails for S3: on access denied \<^verbatim>\<open>head_object\<close>
  raises a \<^verbatim>\<open>ClientError\<close> with code \<open>403\<close>, and \<^verbatim>\<open>S3Connector.file_exists\<close>
  raises it again instead of returning false.
\<close>

theorem file_exists_counterexample:
  "file_exists S3Connector demo_answers_forbidden = Inl (ClientError ''403'' ''Forbidden'')"
  by (simp add: file_exists_def s3_file_exists_def demo_answers_forbidden_def demo_answers_def
      isinstance_def error_code_def)

end
